theory Spec2Isabelle
  imports Complex_Main "HOL-Library.Sublist"
begin

section \<open>Data model of the knowledge graph (src/index.js)\<close>

text \<open>
  The interfaces \<^verbatim>\<open>Entity\<close>, \<^verbatim>\<open>Relation\<close> and \<^verbatim>\<open>KnowledgeGraph\<close> of the declaration file.
  The field \<^verbatim>\<open>from\<close> of a relation is written \<open>rfrom\<close> and \<^verbatim>\<open>to\<close> is written \<open>rto\<close>
  (both are reserved words of the proof language). Strings are character lists.
\<close>

record Entity =
  name :: string
  entityType :: string
  observations :: "string list"

record Relation =
  rfrom :: string
  rto :: string
  relationType :: string

record KnowledgeGraph =
  entities :: "Entity list"
  relations :: "Relation list"

text \<open>
  Every \<^verbatim>\<open>throw new Error(...)\<close> of the source is a value of this type; the constructor
  carries the offending name or tag that the message cites.
\<close>

datatype error =
    InvalidStatusValue string
  | InvalidPriorityValue string
  | InvalidEntityType string
  | InvalidRelationType string
  | SourceEntityMissing string
  | TargetEntityMissing string
  | EntityNotFound string
  | ProjectNotFound string
  | ComponentNotFound string
  | MilestoneNotFound string
  | UnknownStage string
  | SessionNotFound string

text \<open>
  A method of \<^verbatim>\<open>KnowledgeGraphManager\<close> that mutates the graph loads the whole file,
  computes, and saves the whole file; a \<^verbatim>\<open>throw\<close> leaves before \<^verbatim>\<open>saveGraph\<close>.
  Such a method is a function from the persisted graph to the pair of its outcome and
  the graph persisted afterwards.
\<close>

type_synonym 'a store_op = "KnowledgeGraph \<Rightarrow> (error + 'a) \<times> KnowledgeGraph"

definition VALID_ENTITY_TYPES :: "string list" where
  "VALID_ENTITY_TYPES =
    [''project'', ''component'', ''feature'', ''issue'', ''task'', ''technology'',
     ''decision'', ''milestone'', ''environment'', ''documentation'', ''requirement'',
     ''status'', ''priority'']"

definition VALID_RELATION_TYPES :: "string list" where
  "VALID_RELATION_TYPES =
    [''depends_on'', ''implements'', ''blocked_by'', ''uses'', ''part_of'', ''contains'',
     ''related_to'', ''affects'', ''resolves'', ''documented_in'', ''decided_in'',
     ''required_by'', ''has_status'', ''has_priority'', ''depends_on_milestone'',
     ''precedes'', ''tested_in'']"

definition validateEntityType :: "string \<Rightarrow> bool" where
  "validateEntityType t = (t \<in> set VALID_ENTITY_TYPES)"

definition validateRelationType :: "string \<Rightarrow> bool" where
  "validateRelationType t = (t \<in> set VALID_RELATION_TYPES)"

definition VALID_STATUS_VALUES :: "string list" where
  "VALID_STATUS_VALUES = [''inactive'', ''active'', ''complete'']"

definition VALID_PRIORITY_VALUES :: "string list" where
  "VALID_PRIORITY_VALUES = [''low'', ''high'']"

subsection \<open>String helpers of the runtime\<close>

text \<open>
  \<^verbatim>\<open>s.split(c)\<close> for a one-character separator: the pieces between the separators, so
  the empty string gives one empty piece.
\<close>

fun split :: "char \<Rightarrow> string \<Rightarrow> string list" where
  "split c [] = [[]]"
| "split c (x # xs) =
     (if x = c then [] # split c xs
      else (case split c xs of [] \<Rightarrow> [[x]] | y # ys \<Rightarrow> (x # y) # ys))"

text \<open>\<^verbatim>\<open>xs[i]\<close> on an array: \<^verbatim>\<open>undefined\<close> (here \<open>None\<close>) out of range.\<close>

definition index :: "'a list \<Rightarrow> nat \<Rightarrow> 'a option" where
  "index xs i = (if i < length xs then Some (xs ! i) else None)"

text \<open>\<^verbatim>\<open>s.startsWith(p)\<close> and \<^verbatim>\<open>s.includes(q)\<close> (written \<open>includes_str\<close>).\<close>

definition startsWith :: "string \<Rightarrow> string \<Rightarrow> bool" where
  "startsWith s p = prefix p s"

fun includes_str :: "string \<Rightarrow> string \<Rightarrow> bool" where
  "includes_str [] q = (q = [])"
| "includes_str (c # cs) q = (prefix q (c # cs) \<or> includes_str cs q)"

text \<open>
  \<^verbatim>\<open>s.toLowerCase()\<close> on the ASCII letters; the characters of the model are bytes, and
  a byte outside \<^verbatim>\<open>A\<close>..\<^verbatim>\<open>Z\<close> is left as it is.
\<close>

definition lower_char :: "char \<Rightarrow> char" where
  "lower_char c =
     (let k = (of_char c :: nat) in if 65 \<le> k \<and> k \<le> 90 then char_of (k + 32) else c)"

definition toLowerCase :: "string \<Rightarrow> string" where
  "toLowerCase s = map lower_char s"

section \<open>Status and priority as relations\<close>

definition getEntityStatus :: "string \<Rightarrow> KnowledgeGraph \<Rightarrow> string option" where
  "getEntityStatus entityName graph =
     (case find (\<lambda>r. rfrom r = entityName \<and> relationType r = ''has_status'') (relations graph) of
        Some statusRelation \<Rightarrow> index (split CHR '':'' (rto statusRelation)) 1
      | None \<Rightarrow> None)"

definition getEntityPriority :: "string \<Rightarrow> KnowledgeGraph \<Rightarrow> string option" where
  "getEntityPriority entityName graph =
     (case find (\<lambda>r. rfrom r = entityName \<and> relationType r = ''has_priority'') (relations graph) of
        Some priorityRelation \<Rightarrow> index (split CHR '':'' (rto priorityRelation)) 1
      | None \<Rightarrow> None)"

definition setEntityStatus :: "string \<Rightarrow> string \<Rightarrow> unit store_op" where
  "setEntityStatus entityName statusValue file =
     (if statusValue \<notin> set VALID_STATUS_VALUES then (Inl (InvalidStatusValue statusValue), file)
      else
        let graph = file;
            graph = graph\<lparr>relations :=
              filter (\<lambda>r. \<not> (rfrom r = entityName \<and> relationType r = ''has_status''))
                (relations graph)\<rparr>;
            graph = graph\<lparr>relations := relations graph @
              [\<lparr>rfrom = entityName, rto = ''status:'' @ statusValue,
                relationType = ''has_status''\<rparr>]\<rparr>
        in (Inr (), graph))"

definition setEntityPriority :: "string \<Rightarrow> string \<Rightarrow> unit store_op" where
  "setEntityPriority entityName priorityValue file =
     (if priorityValue \<notin> set VALID_PRIORITY_VALUES
      then (Inl (InvalidPriorityValue priorityValue), file)
      else
        let graph = file;
            graph = graph\<lparr>relations :=
              filter (\<lambda>r. \<not> (rfrom r = entityName \<and> relationType r = ''has_priority''))
                (relations graph)\<rparr>;
            graph = graph\<lparr>relations := relations graph @
              [\<lparr>rfrom = entityName, rto = ''priority:'' @ priorityValue,
                relationType = ''has_priority''\<rparr>]\<rparr>
        in (Inr (), graph))"

section \<open>Creating and deleting\<close>

definition createEntities :: "Entity list \<Rightarrow> Entity list store_op" where
  "createEntities es file =
     (case find (\<lambda>entity. \<not> validateEntityType (entityType entity)) es of
        Some entity \<Rightarrow> (Inl (InvalidEntityType (entityType entity)), file)
      | None \<Rightarrow>
          let graph = file;
              newEntities = filter (\<lambda>e. \<not> list_ex (\<lambda>existingEntity. name existingEntity = name e)
                                            (entities graph)) es;
              graph = graph\<lparr>entities := entities graph @ newEntities\<rparr>
          in (Inr newEntities, graph))"

text \<open>
  The second loop of \<^verbatim>\<open>createRelations\<close>: the first relation of the batch with a missing
  endpoint throws, its source being looked at before its target.
\<close>

fun check_endpoints :: "Entity list \<Rightarrow> Relation list \<Rightarrow> error option" where
  "check_endpoints es [] = None"
| "check_endpoints es (relation # rs) =
     (let fromEntity = find (\<lambda>e. name e = rfrom relation) es;
          toEntity = find (\<lambda>e. name e = rto relation) es
      in if fromEntity = None then Some (SourceEntityMissing (rfrom relation))
         else if toEntity = None then Some (TargetEntityMissing (rto relation))
         else check_endpoints es rs)"

definition createRelations :: "Relation list \<Rightarrow> Relation list store_op" where
  "createRelations rs file =
     (case find (\<lambda>relation. \<not> validateRelationType (relationType relation)) rs of
        Some relation \<Rightarrow> (Inl (InvalidRelationType (relationType relation)), file)
      | None \<Rightarrow>
          let graph = file in
          (case check_endpoints (entities graph) rs of
             Some err \<Rightarrow> (Inl err, file)
           | None \<Rightarrow>
               let newRelations =
                     filter (\<lambda>r. \<not> list_ex (\<lambda>existingRelation.
                                 rfrom existingRelation = rfrom r \<and>
                                 rto existingRelation = rto r \<and>
                                 relationType existingRelation = relationType r)
                               (relations graph)) rs;
                   graph = graph\<lparr>relations := relations graph @ newRelations\<rparr>
               in (Inr newRelations, graph)))"

definition deleteEntities :: "string list \<Rightarrow> unit store_op" where
  "deleteEntities entityNames file =
     (let graph = file;
          graph = graph\<lparr>entities := filter (\<lambda>e. name e \<notin> set entityNames) (entities graph)\<rparr>;
          graph = graph\<lparr>relations :=
            filter (\<lambda>r. rfrom r \<notin> set entityNames \<and> rto r \<notin> set entityNames) (relations graph)\<rparr>
      in (Inr (), graph))"

section \<open>Search and bulk lookup\<close>

definition searchNodes :: "string \<Rightarrow> KnowledgeGraph \<Rightarrow> KnowledgeGraph" where
  "searchNodes query graph =
     (let filteredEntities =
            filter (\<lambda>e. includes_str (toLowerCase (name e)) (toLowerCase query) \<or>
                        includes_str (toLowerCase (entityType e)) (toLowerCase query) \<or>
                        list_ex (\<lambda>o'. includes_str (toLowerCase o') (toLowerCase query))
                          (observations e))
              (entities graph);
          filteredEntityNames = set (map name filteredEntities);
          filteredRelations =
            filter (\<lambda>r. rfrom r \<in> filteredEntityNames \<and> rto r \<in> filteredEntityNames)
              (relations graph)
      in \<lparr>entities = filteredEntities, relations = filteredRelations\<rparr>)"

definition openNodes :: "string list \<Rightarrow> KnowledgeGraph \<Rightarrow> KnowledgeGraph" where
  "openNodes names graph =
     (let filteredEntities = filter (\<lambda>e. name e \<in> set names) (entities graph);
          filteredEntityNames = set (map name filteredEntities);
          filteredRelations =
            filter (\<lambda>r. rfrom r \<in> filteredEntityNames \<and> rto r \<in> filteredEntityNames)
              (relations graph)
      in \<lparr>entities = filteredEntities, relations = filteredRelations\<rparr>)"

section \<open>Vocabulary of the statements\<close>

definition outgoing :: "string \<Rightarrow> string \<Rightarrow> KnowledgeGraph \<Rightarrow> Relation list" where
  "outgoing n t g = filter (\<lambda>r. rfrom r = n \<and> relationType r = t) (relations g)"

definition status_relation :: "string \<Rightarrow> string \<Rightarrow> Relation" where
  "status_relation n v = \<lparr>rfrom = n, rto = ''status:'' @ v, relationType = ''has_status''\<rparr>"

definition priority_relation :: "string \<Rightarrow> string \<Rightarrow> Relation" where
  "priority_relation n v = \<lparr>rfrom = n, rto = ''priority:'' @ v, relationType = ''has_priority''\<rparr>"

definition graph_two_statuses :: KnowledgeGraph where
  "graph_two_statuses =
    \<lparr>entities = [\<lparr>name = ''T1'', entityType = ''task'', observations = []\<rparr>],
     relations = [\<lparr>rfrom = ''T1'', rto = ''status:inactive'', relationType = ''has_status''\<rparr>,
                  \<lparr>rfrom = ''T1'', rto = ''priority:low'', relationType = ''has_priority''\<rparr>,
                  \<lparr>rfrom = ''T1'', rto = ''status:active'', relationType = ''has_status''\<rparr>,
                  \<lparr>rfrom = ''T1'', rto = ''priority:high'', relationType = ''has_priority''\<rparr>]\<rparr>"

definition entity_names :: "KnowledgeGraph \<Rightarrow> string set" where
  "entity_names g = set (map name (entities g))"

definition endpoints_exist :: "KnowledgeGraph \<Rightarrow> bool" where
  "endpoints_exist g =
     list_all (\<lambda>r. rfrom r \<in> entity_names g \<and> rto r \<in> entity_names g) (relations g)"

definition is_not_found :: "error + 'a \<Rightarrow> bool" where
  "is_not_found res =
     (case res of Inl (SourceEntityMissing x) \<Rightarrow> True | Inl (TargetEntityMissing x) \<Rightarrow> True
      | _ \<Rightarrow> False)"

definition empty_graph :: KnowledgeGraph where
  "empty_graph = \<lparr>entities = [], relations = []\<rparr>"

definition three_nodes :: KnowledgeGraph where
  "three_nodes =
    \<lparr>entities = [\<lparr>name = ''Alpha'', entityType = ''project'', observations = []\<rparr>,
                 \<lparr>name = ''Beta'', entityType = ''component'', observations = [''core API'']\<rparr>,
                 \<lparr>name = ''Gamma'', entityType = ''task'', observations = []\<rparr>],
     relations = [\<lparr>rfrom = ''Alpha'', rto = ''Beta'', relationType = ''contains''\<rparr>,
                  \<lparr>rfrom = ''Gamma'', rto = ''Beta'', relationType = ''part_of''\<rparr>,
                  \<lparr>rfrom = ''Alpha'', rto = ''Gamma'', relationType = ''contains''\<rparr>]\<rparr>"

section \<open>Session workflow: the stage log of \<^verbatim>\<open>endsession\<close>\<close>

text \<open>
  The values a stage payload can hold (\<^verbatim>\<open>z.record(z.string(), z.any())\<close>, stored as JSON).
\<close>

datatype json =
    JUndefined
  | JNull
  | JBool bool
  | JNum rat
  | JStr string
  | JArr "json list"
  | JObj "(string \<times> json) list"

text \<open>Truthiness, \<^verbatim>\<open>a || b\<close>, and the optional-chained property read \<^verbatim>\<open>v?.k\<close>.\<close>

fun truthy :: "json \<Rightarrow> bool" where
  "truthy JUndefined = False"
| "truthy JNull = False"
| "truthy (JBool b) = b"
| "truthy (JNum n) = (n \<noteq> 0)"
| "truthy (JStr s) = (s \<noteq> [])"
| "truthy (JArr xs) = True"
| "truthy (JObj kvs) = True"

definition js_or :: "json \<Rightarrow> json \<Rightarrow> json" where
  "js_or a b = (if truthy a then a else b)"

text \<open>
  Only the payload fields \<^verbatim>\<open>summary\<close>, \<^verbatim>\<open>duration\<close>, \<^verbatim>\<open>focus\<close>, \<^verbatim>\<open>achievements\<close>,
  \<^verbatim>\<open>taskUpdates\<close>, \<^verbatim>\<open>newTasks\<close>, \<^verbatim>\<open>projectName\<close>, \<^verbatim>\<open>projectStatus\<close> and
  \<^verbatim>\<open>projectObservation\<close> are read this way; none of them is a property of a string, a
  number, a boolean or an array, so the read gives \<^verbatim>\<open>undefined\<close> there.
\<close>

fun read_prop :: "json \<Rightarrow> string \<Rightarrow> json" where
  "read_prop (JObj kvs) k = (case map_of kvs k of Some v \<Rightarrow> v | None \<Rightarrow> JUndefined)"
| "read_prop v k = JUndefined"

text \<open>
  The items of a session's list: the stage records that \<^verbatim>\<open>endsession\<close> pushes with
  \<^verbatim>\<open>type: 'analysis_stage'\<close>, the \<^verbatim>\<open>context_loaded\<close> events of \<^verbatim>\<open>loadcontext\<close>
  (timestamp, entityName, entityType) and the \<^verbatim>\<open>session_completed\<close> marker
  (timestamp, summary, project).
\<close>

record StageRecord =
  stage :: string
  stageNumber :: nat
  analysis :: string
  stageData :: json
  completed :: bool

datatype SessionItem =
    analysis_stage StageRecord
  | context_loaded string string string
  | session_completed string json json

fun is_analysis_stage :: "SessionItem \<Rightarrow> bool" where
  "is_analysis_stage (analysis_stage r) = True"
| "is_analysis_stage other = False"

text \<open>\<^verbatim>\<open>s.stage\<close> of an item: only stage records have the property.\<close>

fun item_stage :: "SessionItem \<Rightarrow> string option" where
  "item_stage (analysis_stage r) = Some (stage r)"
| "item_stage other = None"

text \<open>\<^verbatim>\<open>s?.stageData\<close> of the result of \<^verbatim>\<open>stages.find(...)\<close>.\<close>

fun found_stageData :: "SessionItem option \<Rightarrow> json" where
  "found_stageData (Some (analysis_stage r)) = stageData r"
| "found_stageData other = JUndefined"

text \<open>
  The parameters of the \<^verbatim>\<open>endsession\<close> tool, as its schema types them; the fields carry
  the prefix \<open>p_\<close> to keep them apart from the fields of a stage record. An optional
  parameter is an \<open>option\<close>; \<^verbatim>\<open>stageData\<close> is an object when present.
\<close>

record EndSessionParams =
  p_sessionId :: string
  p_stage :: string
  p_stageNumber :: nat
  p_totalStages :: nat
  p_analysis :: "string option"
  p_stageData :: "(string \<times> json) list option"
  p_nextStageNeeded :: bool
  p_isRevision :: "bool option"
  p_revisesStage :: "nat option"

text \<open>
  \<^verbatim>\<open>assembleEndSessionArgs\<close>. \<^verbatim>\<open>JSON.stringify\<close> is the parameter \<open>stringify\<close>: the
  serialisation of a value plays no part in which record is chosen.
\<close>

definition assembleEndSessionArgs :: "(json \<Rightarrow> string) \<Rightarrow> SessionItem list \<Rightarrow> json" where
  "assembleEndSessionArgs stringify stages =
     (let summaryStage = find (\<lambda>s. item_stage s = Some ''summary'') stages;
          achievementsStage = find (\<lambda>s. item_stage s = Some ''achievements'') stages;
          taskUpdatesStage = find (\<lambda>s. item_stage s = Some ''taskUpdates'') stages;
          newTasksStage = find (\<lambda>s. item_stage s = Some ''newTasks'') stages;
          projectStatusStage = find (\<lambda>s. item_stage s = Some ''projectStatus'') stages
      in JObj
        [(''summary'', js_or (read_prop (found_stageData summaryStage) ''summary'') (JStr '''')),
         (''duration'', js_or (read_prop (found_stageData summaryStage) ''duration'') (JStr ''unknown'')),
         (''focus'', js_or (read_prop (found_stageData summaryStage) ''focus'') (JStr '''')),
         (''achievements'',
            JStr (stringify (js_or (read_prop (found_stageData achievementsStage) ''achievements'')
                               (JArr [])))),
         (''taskUpdates'',
            JStr (stringify (js_or (read_prop (found_stageData taskUpdatesStage) ''taskUpdates'')
                               (JArr [])))),
         (''projectName'',
            js_or (read_prop (found_stageData projectStatusStage) ''projectName'') (JStr '''')),
         (''projectStatus'',
            js_or (read_prop (found_stageData projectStatusStage) ''projectStatus'') (JStr '''')),
         (''projectObservation'',
            js_or (read_prop (found_stageData projectStatusStage) ''projectObservation'') (JStr '''')),
         (''newTasks'',
            JStr (stringify (js_or (read_prop (found_stageData newTasksStage) ''newTasks'')
                               (JArr []))))])"

text \<open>\<^verbatim>\<open>params.analysis || ""\<close> and \<^verbatim>\<open>params.stageData || {...}\<close>.\<close>

definition analysis_or_empty :: "EndSessionParams \<Rightarrow> string" where
  "analysis_or_empty params = (case p_analysis params of Some a \<Rightarrow> a | None \<Rightarrow> [])"

definition stageData_or :: "EndSessionParams \<Rightarrow> (string \<times> json) list \<Rightarrow> json" where
  "stageData_or params dflt = (case p_stageData params of Some d \<Rightarrow> JObj d | None \<Rightarrow> JObj dflt)"

definition processStage ::
  "(json \<Rightarrow> string) \<Rightarrow> EndSessionParams \<Rightarrow> SessionItem list \<Rightarrow> error + StageRecord" where
  "processStage stringify params previousStages =
     (if p_stage params = ''summary'' then
        Inr \<lparr>stage = ''summary'', stageNumber = p_stageNumber params,
             analysis = analysis_or_empty params,
             stageData = stageData_or params
               [(''summary'', JStr ''''), (''duration'', JStr ''''), (''focus'', JStr '''')],
             completed = (\<not> p_nextStageNeeded params)\<rparr>
      else if p_stage params = ''achievements'' then
        Inr \<lparr>stage = ''achievements'', stageNumber = p_stageNumber params,
             analysis = analysis_or_empty params,
             stageData = stageData_or params [(''achievements'', JArr [])],
             completed = (\<not> p_nextStageNeeded params)\<rparr>
      else if p_stage params = ''taskUpdates'' then
        Inr \<lparr>stage = ''taskUpdates'', stageNumber = p_stageNumber params,
             analysis = analysis_or_empty params,
             stageData = stageData_or params [(''taskUpdates'', JArr [])],
             completed = (\<not> p_nextStageNeeded params)\<rparr>
      else if p_stage params = ''newTasks'' then
        Inr \<lparr>stage = ''newTasks'', stageNumber = p_stageNumber params,
             analysis = analysis_or_empty params,
             stageData = stageData_or params [(''newTasks'', JArr [])],
             completed = (\<not> p_nextStageNeeded params)\<rparr>
      else if p_stage params = ''projectStatus'' then
        Inr \<lparr>stage = ''projectStatus'', stageNumber = p_stageNumber params,
             analysis = analysis_or_empty params,
             stageData = stageData_or params
               [(''projectName'', JStr ''''), (''projectStatus'', JStr ''''),
                (''projectObservation'', JStr '''')],
             completed = (\<not> p_nextStageNeeded params)\<rparr>
      else if p_stage params = ''assembly'' then
        Inr \<lparr>stage = ''assembly'', stageNumber = p_stageNumber params,
             analysis = ''Final assembly of endsession arguments'',
             stageData = assembleEndSessionArgs stringify previousStages,
             completed = True\<rparr>
      else Inl (UnknownStage (p_stage params)))"

text \<open>
  The handler of \<^verbatim>\<open>endsession\<close> up to \<^verbatim>\<open>saveSessionStates\<close>: the session file is a map
  from session id to the list of items; the outcome is the stage record (or the error the
  handler reports), together with the session file as saved. The commit that follows a
  final \<^verbatim>\<open>assembly\<close> call only pushes a \<^verbatim>\<open>session_completed\<close> item to this list.
\<close>

definition endsession_store ::
  "(json \<Rightarrow> string) \<Rightarrow> EndSessionParams \<Rightarrow> (string \<rightharpoonup> SessionItem list)
     \<Rightarrow> (error + StageRecord) \<times> (string \<rightharpoonup> SessionItem list)" where
  "endsession_store stringify params sessionStates =
     (case sessionStates (p_sessionId params) of
        None \<Rightarrow> (Inl (SessionNotFound (p_sessionId params)), sessionStates)
      | Some sessionState \<Rightarrow>
          (case processStage stringify params sessionState of
             Inl err \<Rightarrow> (Inl err, sessionStates)
           | Inr stageResult \<Rightarrow>
               let sessionState' =
                 (if p_isRevision params = Some True \<and>
                     (case p_revisesStage params of Some k \<Rightarrow> k \<noteq> 0 | None \<Rightarrow> False)
                  then
                    let k = the (p_revisesStage params);
                        analysisStages = filter is_analysis_stage sessionState;
                        analysisStages =
                          (if k \<le> length analysisStages
                           then analysisStages[k - 1 := analysis_stage stageResult]
                           else analysisStages @ [analysis_stage stageResult])
                    in filter (\<lambda>item. \<not> is_analysis_stage item) sessionState @ analysisStages
                  else sessionState @ [analysis_stage stageResult])
               in (Inr stageResult, sessionStates(p_sessionId params \<mapsto> sessionState'))))"

definition summary_params :: "string \<Rightarrow> EndSessionParams" where
  "summary_params txt =
     \<lparr>p_sessionId = ''dev_1'', p_stage = ''summary'', p_stageNumber = 1, p_totalStages = 6,
      p_analysis = None, p_stageData = Some [(''summary'', JStr txt)],
      p_nextStageNeeded = True, p_isRevision = None, p_revisesStage = None\<rparr>"

definition summary_record :: "string \<Rightarrow> StageRecord" where
  "summary_record txt =
     \<lparr>stage = ''summary'', stageNumber = 1, analysis = [],
      stageData = JObj [(''summary'', JStr txt)], completed = False\<rparr>"

definition achievements_record :: StageRecord where
  "achievements_record =
     \<lparr>stage = ''achievements'', stageNumber = 2, analysis = [],
      stageData = JObj [(''achievements'', JArr [JStr ''login fixed''])], completed = False\<rparr>"

definition three_stage_log :: "SessionItem list" where
  "three_stage_log =
     [analysis_stage (summary_record ''old''),
      context_loaded ''2025-01-01T00:00:00.000Z'' ''AuthSystem'' ''project'',
      analysis_stage achievements_record,
      analysis_stage (summary_record ''older'')]"

definition revision_params :: "nat \<Rightarrow> EndSessionParams" where
  "revision_params k = (summary_params ''new'')\<lparr>p_isRevision := Some True, p_revisesStage := Some k\<rparr>"

text \<open>
  A serialiser to evaluate examples with; the statements below hold for every serialiser.
\<close>

definition opaque_stringify :: "json \<Rightarrow> string" where
  "opaque_stringify v = ''<json>''"

definition assembly_params :: EndSessionParams where
  "assembly_params =
     \<lparr>p_sessionId = ''dev_1'', p_stage = ''assembly'', p_stageNumber = 6, p_totalStages = 6,
      p_analysis = None, p_stageData = None,
      p_nextStageNeeded = True, p_isRevision = None, p_revisesStage = None\<rparr>"

section \<open>Object literals used as dictionaries\<close>

text \<open>
  \<^verbatim>\<open>const statuses = {}\<close> is an ordinary object: a read \<^verbatim>\<open>statuses[k]\<close> that finds no own
  property goes on to \<^verbatim>\<open>Object.prototype\<close>, whose properties are functions (and, for
  \<^verbatim>\<open>__proto__\<close>, the prototype object itself): truthy values that are no strings. A write
  \<^verbatim>\<open>statuses['__proto__'] = s\<close> of a string is ignored by the \<^verbatim>\<open>__proto__\<close> setter. The own
  properties are a map from names to strings.
\<close>

datatype looked_up = Undefined | Str string | Inherited

definition Object_prototype_keys :: "string list" where
  "Object_prototype_keys =
     [''constructor'', ''__defineGetter__'', ''__defineSetter__'', ''hasOwnProperty'',
      ''__lookupGetter__'', ''__lookupSetter__'', ''isPrototypeOf'', ''propertyIsEnumerable'',
      ''toString'', ''valueOf'', ''__proto__'', ''toLocaleString'']"

type_synonym str_object = "string \<rightharpoonup> string"

definition obj_get :: "str_object \<Rightarrow> string \<Rightarrow> looked_up" where
  "obj_get obj k =
     (if k = ''__proto__'' then Inherited
      else case obj k of Some s \<Rightarrow> Str s
           | None \<Rightarrow> if k \<in> set Object_prototype_keys then Inherited else Undefined)"

definition obj_set :: "str_object \<Rightarrow> string \<Rightarrow> string \<Rightarrow> str_object" where
  "obj_set obj k s = (if k = ''__proto__'' then obj else obj(k \<mapsto> s))"

section \<open>Project status, component context\<close>

text \<open>
  The loop that fills \<^verbatim>\<open>statuses\<close> (and \<^verbatim>\<open>priorities\<close>): the value is stored when it is
  truthy, that is a non-empty string.
\<close>

definition load_statuses :: "KnowledgeGraph \<Rightarrow> Entity list \<Rightarrow> str_object" where
  "load_statuses graph es =
     foldl (\<lambda>statuses entity.
              case getEntityStatus (name entity) graph of
                Some status \<Rightarrow> if status \<noteq> [] then obj_set statuses (name entity) status
                               else statuses
              | None \<Rightarrow> statuses)
       Map.empty es"

definition load_priorities :: "KnowledgeGraph \<Rightarrow> Entity list \<Rightarrow> str_object" where
  "load_priorities graph es =
     foldl (\<lambda>priorities entity.
              case getEntityPriority (name entity) graph of
                Some priority \<Rightarrow> if priority \<noteq> [] then obj_set priorities (name entity) priority
                                 else priorities
              | None \<Rightarrow> priorities)
       Map.empty es"

text \<open>The filter \<^verbatim>\<open>status ? status === 'active' : true\<close> on \<^verbatim>\<open>statuses[e.name]\<close>.\<close>

definition active_filter :: "str_object \<Rightarrow> Entity \<Rightarrow> bool" where
  "active_filter statuses e =
     (case obj_get statuses (name e) of
        Undefined \<Rightarrow> True
      | Str status \<Rightarrow> (if status \<noteq> [] then status = ''active'' else True)
      | Inherited \<Rightarrow> False)"

record Collected =
  components :: "Entity list"
  features :: "Entity list"
  issues :: "Entity list"
  tasks :: "Entity list"
  milestones :: "Entity list"

text \<open>The entity at the other end of a relation that touches \<open>n\<close>.\<close>

definition relatedEntity :: "string \<Rightarrow> Relation \<Rightarrow> KnowledgeGraph \<Rightarrow> Entity option" where
  "relatedEntity n relation graph =
     find (\<lambda>e. (rfrom relation = n \<and> name e = rto relation) \<or>
               (rto relation = n \<and> name e = rfrom relation)) (entities graph)"

definition push_direct :: "Collected \<Rightarrow> Entity \<Rightarrow> Collected" where
  "push_direct c e =
     (let c = (if entityType e = ''component'' then c\<lparr>components := components c @ [e]\<rparr> else c);
          c = (if entityType e = ''feature'' then c\<lparr>features := features c @ [e]\<rparr> else c);
          c = (if entityType e = ''issue'' then c\<lparr>issues := issues c @ [e]\<rparr> else c);
          c = (if entityType e = ''task'' then c\<lparr>tasks := tasks c @ [e]\<rparr> else c);
          c = (if entityType e = ''milestone'' then c\<lparr>milestones := milestones c @ [e]\<rparr> else c)
      in c)"

definition collect_direct :: "string \<Rightarrow> KnowledgeGraph \<Rightarrow> Collected" where
  "collect_direct projectName graph =
     foldl (\<lambda>c relation.
              if rfrom relation = projectName \<or> rto relation = projectName
              then (case relatedEntity projectName relation graph of
                      Some e \<Rightarrow> push_direct c e | None \<Rightarrow> c)
              else c)
       \<lparr>components = [], features = [], issues = [], tasks = [], milestones = []\<rparr>
       (relations graph)"

definition push_unique :: "Collected \<Rightarrow> Entity \<Rightarrow> Collected" where
  "push_unique c e =
     (let c = (if entityType e = ''feature'' \<and> \<not> list_ex (\<lambda>f. name f = name e) (features c)
               then c\<lparr>features := features c @ [e]\<rparr> else c);
          c = (if entityType e = ''issue'' \<and> \<not> list_ex (\<lambda>i. name i = name e) (issues c)
               then c\<lparr>issues := issues c @ [e]\<rparr> else c);
          c = (if entityType e = ''task'' \<and> \<not> list_ex (\<lambda>t. name t = name e) (tasks c)
               then c\<lparr>tasks := tasks c @ [e]\<rparr> else c)
      in c)"

definition collect_via_components :: "KnowledgeGraph \<Rightarrow> Collected \<Rightarrow> Collected" where
  "collect_via_components graph c0 =
     foldl (\<lambda>c component.
              foldl (\<lambda>c relation.
                       if rfrom relation = name component \<or> rto relation = name component
                       then (case relatedEntity (name component) relation graph of
                               Some e \<Rightarrow> push_unique c e | None \<Rightarrow> c)
                       else c)
                c (relations graph))
       c0 (components c0)"

text \<open>
  The result of \<^verbatim>\<open>getProjectStatus\<close>, without its \<^verbatim>\<open>taskSequencing\<close> field, which no
  statement below reads.
\<close>

record ProjectStatus =
  ps_project :: Entity
  ps_components :: "Entity list"
  ps_activeFeatures :: "Entity list"
  ps_activeTasks :: "Entity list"
  ps_activeIssues :: "Entity list"
  ps_upcomingMilestones :: "Entity list"
  ps_allFeatures :: "Entity list"
  ps_allIssues :: "Entity list"
  ps_allTasks :: "Entity list"
  ps_allMilestones :: "Entity list"
  ps_recentDecisions :: "Entity list"
  ps_statuses :: str_object
  ps_priorities :: str_object

definition getProjectStatus :: "string \<Rightarrow> KnowledgeGraph \<Rightarrow> error + ProjectStatus" where
  "getProjectStatus projectName graph =
     (case find (\<lambda>e. name e = projectName \<and> entityType e = ''project'') (entities graph) of
        None \<Rightarrow> Inl (ProjectNotFound projectName)
      | Some project \<Rightarrow>
          let c = collect_via_components graph (collect_direct projectName graph);
              loaded = tasks c @ issues c @ features c @ milestones c;
              statuses = load_statuses graph loaded;
              priorities = load_priorities graph loaded;
              activeTasks = filter (active_filter statuses) (tasks c);
              activeIssues = filter (active_filter statuses) (issues c);
              upcomingMilestones = filter (active_filter statuses) (milestones c);
              decisions =
                filter (\<lambda>e. entityType e = ''decision'' \<and>
                            list_ex (\<lambda>r. (rfrom r = name e \<and> rto r = projectName) \<or>
                                          (rto r = name e \<and> rfrom r = projectName))
                              (relations graph))
                  (entities graph)
          in Inr \<lparr>ps_project = project,
                  ps_components = components c,
                  ps_activeFeatures = filter (active_filter statuses) (features c),
                  ps_activeTasks = activeTasks,
                  ps_activeIssues = activeIssues,
                  ps_upcomingMilestones = upcomingMilestones,
                  ps_allFeatures = features c,
                  ps_allIssues = issues c,
                  ps_allTasks = tasks c,
                  ps_allMilestones = milestones c,
                  ps_recentDecisions = take 5 decisions,
                  ps_statuses = statuses,
                  ps_priorities = priorities\<rparr>)"

text \<open>
  The loops of \<^verbatim>\<open>getComponentContext\<close> (and of the later queries) have one shape: for each
  relation that passes a test, look up the entity named by one endpoint that passes a test
  of its own, and push it when found.
\<close>

definition lookup_each ::
  "(Relation \<Rightarrow> bool) \<Rightarrow> (Relation \<Rightarrow> Entity \<Rightarrow> bool) \<Rightarrow> KnowledgeGraph \<Rightarrow> Entity list" where
  "lookup_each test pick graph =
     List.map_filter (\<lambda>relation. find (pick relation) (entities graph))
       (filter test (relations graph))"

record ComponentContext =
  cc_component :: Entity
  cc_projects :: "Entity list"
  cc_features :: "Entity list"
  cc_technologies :: "Entity list"
  cc_activeIssues :: "Entity list"
  cc_activeTasks :: "Entity list"
  cc_documentation :: "Entity list"
  cc_dependencies :: "Entity list"
  cc_allIssues :: "Entity list"
  cc_allTasks :: "Entity list"
  cc_statuses :: str_object
  cc_priorities :: str_object

definition getComponentContext :: "string \<Rightarrow> KnowledgeGraph \<Rightarrow> error + ComponentContext" where
  "getComponentContext componentName graph =
     (case find (\<lambda>e. name e = componentName \<and> entityType e = ''component'') (entities graph) of
        None \<Rightarrow> Inl (ComponentNotFound componentName)
      | Some component \<Rightarrow>
          let projects = lookup_each
                (\<lambda>r. relationType r = ''contains'' \<and> rto r = componentName)
                (\<lambda>r e. name e = rfrom r \<and> entityType e = ''project'') graph;
              features = lookup_each
                (\<lambda>r. relationType r = ''implements'' \<and> rfrom r = componentName)
                (\<lambda>r e. name e = rto r \<and> entityType e = ''feature'') graph;
              technologies = lookup_each
                (\<lambda>r. relationType r = ''uses'' \<and> rfrom r = componentName)
                (\<lambda>r e. name e = rto r \<and> entityType e = ''technology'') graph;
              issues = lookup_each
                (\<lambda>r. relationType r = ''affects'' \<and> rto r = componentName)
                (\<lambda>r e. name e = rfrom r \<and> entityType e = ''issue'') graph;
              tasks = lookup_each
                (\<lambda>r. (rfrom r = componentName \<or> rto r = componentName) \<and>
                      list_ex (\<lambda>e. (name e = rfrom r \<or> name e = rto r) \<and>
                                    name e \<noteq> componentName \<and> entityType e = ''task'')
                        (entities graph))
                (\<lambda>r e. (name e = rfrom r \<or> name e = rto r) \<and>
                        name e \<noteq> componentName \<and> entityType e = ''task'') graph;
              documentation = lookup_each
                (\<lambda>r. relationType r = ''documented_in'' \<and> rfrom r = componentName)
                (\<lambda>r e. name e = rto r \<and> entityType e = ''documentation'') graph;
              dependencies = lookup_each
                (\<lambda>r. relationType r = ''depends_on'' \<and> rfrom r = componentName)
                (\<lambda>r e. name e = rto r) graph;
              loaded = tasks @ issues @ features;
              statuses = load_statuses graph loaded;
              priorities = load_priorities graph loaded
          in Inr \<lparr>cc_component = component,
                  cc_projects = projects,
                  cc_features = features,
                  cc_technologies = technologies,
                  cc_activeIssues = filter (active_filter statuses) issues,
                  cc_activeTasks = filter (active_filter statuses) tasks,
                  cc_documentation = documentation,
                  cc_dependencies = dependencies,
                  cc_allIssues = issues,
                  cc_allTasks = tasks,
                  cc_statuses = statuses,
                  cc_priorities = priorities\<rparr>)"

definition project_with_tasks :: KnowledgeGraph where
  "project_with_tasks =
    \<lparr>entities = [\<lparr>name = ''Shop'', entityType = ''project'', observations = []\<rparr>,
                 \<lparr>name = ''constructor'', entityType = ''task'', observations = []\<rparr>,
                 \<lparr>name = ''checkout'', entityType = ''task'', observations = []\<rparr>,
                 \<lparr>name = ''search'', entityType = ''task'', observations = []\<rparr>,
                 \<lparr>name = ''login'', entityType = ''task'', observations = []\<rparr>],
     relations = [\<lparr>rfrom = ''Shop'', rto = ''constructor'', relationType = ''contains''\<rparr>,
                  \<lparr>rfrom = ''Shop'', rto = ''checkout'', relationType = ''contains''\<rparr>,
                  \<lparr>rfrom = ''Shop'', rto = ''search'', relationType = ''contains''\<rparr>,
                  \<lparr>rfrom = ''Shop'', rto = ''login'', relationType = ''contains''\<rparr>,
                  \<lparr>rfrom = ''search'', rto = ''status:active'', relationType = ''has_status''\<rparr>,
                  \<lparr>rfrom = ''login'', rto = ''status:complete'', relationType = ''has_status''\<rparr>]\<rparr>"

text \<open>
  The status that the queries resolve for a name: the value after the colon of the first
  \<^verbatim>\<open>has_status\<close> relation, when there is one and it is not empty.
\<close>

definition resolved_status :: "KnowledgeGraph \<Rightarrow> string \<Rightarrow> string option" where
  "resolved_status graph n =
     (case getEntityStatus n graph of
        Some status \<Rightarrow> if status \<noteq> [] then Some status else None
      | None \<Rightarrow> None)"

definition active_or_unknown :: "KnowledgeGraph \<Rightarrow> Entity \<Rightarrow> bool" where
  "active_or_unknown graph e =
     (resolved_status graph (name e) = None \<or> resolved_status graph (name e) = Some ''active'')"

definition component_with_task :: KnowledgeGraph where
  "component_with_task =
    \<lparr>entities = [\<lparr>name = ''Cart'', entityType = ''component'', observations = []\<rparr>,
                 \<lparr>name = ''toString'', entityType = ''task'', observations = []\<rparr>,
                 \<lparr>name = ''totals'', entityType = ''task'', observations = []\<rparr>],
     relations = [\<lparr>rfrom = ''toString'', rto = ''Cart'', relationType = ''part_of''\<rparr>,
                  \<lparr>rfrom = ''totals'', rto = ''Cart'', relationType = ''part_of''\<rparr>]\<rparr>"

definition project_with_six_decisions :: KnowledgeGraph where
  "project_with_six_decisions =
    \<lparr>entities = [\<lparr>name = ''Shop'', entityType = ''project'', observations = []\<rparr>,
                 \<lparr>name = ''D1'', entityType = ''decision'', observations = []\<rparr>,
                 \<lparr>name = ''D2'', entityType = ''decision'', observations = []\<rparr>,
                 \<lparr>name = ''D3'', entityType = ''decision'', observations = []\<rparr>,
                 \<lparr>name = ''D4'', entityType = ''decision'', observations = []\<rparr>,
                 \<lparr>name = ''D5'', entityType = ''decision'', observations = []\<rparr>,
                 \<lparr>name = ''D6'', entityType = ''decision'', observations = []\<rparr>],
     relations = [\<lparr>rfrom = ''D1'', rto = ''Shop'', relationType = ''related_to''\<rparr>,
                  \<lparr>rfrom = ''D2'', rto = ''Shop'', relationType = ''related_to''\<rparr>,
                  \<lparr>rfrom = ''Shop'', rto = ''D3'', relationType = ''contains''\<rparr>,
                  \<lparr>rfrom = ''D4'', rto = ''Shop'', relationType = ''related_to''\<rparr>,
                  \<lparr>rfrom = ''D5'', rto = ''Shop'', relationType = ''related_to''\<rparr>,
                  \<lparr>rfrom = ''D6'', rto = ''Shop'', relationType = ''related_to''\<rparr>]\<rparr>"

section \<open>Numbers: double precision\<close>

text \<open>
  A number of the runtime is an IEEE 754 double. In the normal range the result of a
  division or a multiplication is the exact result rounded to 53 significant bits, ties
  to the even significand. The quotient \<^verbatim>\<open>completed / total\<close> of two array lengths with
  \<^verbatim>\<open>completed \<le> total\<close> and its product with 100 are zero or in that range. A double is
  written here as the exact fraction (numerator, denominator) it denotes.
\<close>

function bit_length :: "int \<Rightarrow> int" where
  "bit_length n = (if n \<le> 0 then 0 else 1 + bit_length (n div 2))"
  by pat_completeness auto

termination
  by (relation "measure nat") auto

declare bit_length.simps [simp del]

text \<open>The integer \<open>e\<close> with \<open>2\<^sup>e \<le> p / q < 2\<^sup>e\<^sup>+\<^sup>1\<close>, for positive \<open>p\<close> and \<open>q\<close>.\<close>

definition floor_log2 :: "int \<Rightarrow> int \<Rightarrow> int" where
  "floor_log2 p q =
     (let e = bit_length p - bit_length q
      in if (if 0 \<le> e then q * 2 ^ nat e \<le> p else q \<le> p * 2 ^ nat (- e)) then e else e - 1)"

text \<open>The integer nearest to \<open>a / b\<close> for \<open>b > 0\<close>, a tie going to the even one.\<close>

definition round_half_even :: "int \<Rightarrow> int \<Rightarrow> int" where
  "round_half_even a b =
     (let f = a div b; r = a mod b
      in if 2 * r < b then f else if b < 2 * r then f + 1 else if even f then f else f + 1)"

text \<open>The double nearest to the exact fraction \<open>p / q\<close> (\<open>p \<ge> 0\<close>, \<open>q > 0\<close>).\<close>

definition to_double :: "int \<Rightarrow> int \<Rightarrow> int \<times> int" where
  "to_double p q =
     (if p \<le> 0 then (0, 1)
      else
        let e = floor_log2 p q - 52
        in if 0 \<le> e then (round_half_even p (q * 2 ^ nat e) * 2 ^ nat e, 1)
           else (round_half_even (p * 2 ^ nat (- e)) q, 2 ^ nat (- e)))"

text \<open>\<^verbatim>\<open>a / b\<close> of two integers, \<^verbatim>\<open>x * k\<close> of a double and an integer, and \<^verbatim>\<open>Math.round\<close>.\<close>

definition js_div :: "int \<Rightarrow> int \<Rightarrow> int \<times> int" where
  "js_div a b = to_double a b"

definition js_mul :: "int \<times> int \<Rightarrow> int \<Rightarrow> int \<times> int" where
  "js_mul x k = to_double (fst x * k) (snd x)"

definition Math_round :: "int \<times> int \<Rightarrow> int" where
  "Math_round x = (2 * fst x + snd x) div (2 * snd x)"

section \<open>Milestone progress\<close>

text \<open>
  \<^verbatim>\<open>totalTasks > 0 ? Math.round((completedTasks.length / totalTasks) * 100) : 0\<close>.
\<close>

definition progressPercentage :: "nat \<Rightarrow> nat \<Rightarrow> int" where
  "progressPercentage completedCount totalTasks =
     (if 0 < totalTasks
      then Math_round (js_mul (js_div (int completedCount) (int totalTasks)) 100)
      else 0)"

text \<open>\<^verbatim>\<open>statuses[task.name] || 'inactive'\<close>.\<close>

definition status_or_inactive :: "str_object \<Rightarrow> Entity \<Rightarrow> looked_up" where
  "status_or_inactive statuses task =
     (case obj_get statuses (name task) of
        Undefined \<Rightarrow> Str ''inactive''
      | Str status \<Rightarrow> (if status \<noteq> [] then Str status else Str ''inactive'')
      | Inherited \<Rightarrow> Inherited)"

text \<open>
  The result of \<^verbatim>\<open>getMilestoneProgress\<close>: the fields of its \<^verbatim>\<open>progress\<close> and \<^verbatim>\<open>tasks\<close>
  objects side by side, without \<^verbatim>\<open>taskSequencing\<close>, which no statement below reads. The
  loop that pushes each task to one of three arrays is written as three filters.
\<close>

record MilestoneProgress =
  mp_milestone :: Entity
  mp_totalTasks :: nat
  mp_completedTasks :: nat
  mp_inProgressTasks :: nat
  mp_notStartedTasks :: nat
  mp_percentage :: int
  mp_complete :: bool
  mp_completed :: "Entity list"
  mp_inProgress :: "Entity list"
  mp_notStarted :: "Entity list"
  mp_statuses :: str_object

definition getMilestoneProgress :: "string \<Rightarrow> KnowledgeGraph \<Rightarrow> error + MilestoneProgress" where
  "getMilestoneProgress milestoneName graph =
     (case find (\<lambda>e. name e = milestoneName \<and> entityType e = ''milestone'') (entities graph) of
        None \<Rightarrow> Inl (MilestoneNotFound milestoneName)
      | Some milestone \<Rightarrow>
          let tasks = lookup_each
                (\<lambda>r. relationType r = ''related_to'' \<and> rto r = milestoneName)
                (\<lambda>r e. name e = rfrom r \<and> entityType e = ''task'') graph;
              statuses = load_statuses graph tasks;
              completedTasks =
                filter (\<lambda>task. status_or_inactive statuses task = Str ''complete'') tasks;
              inProgressTasks =
                filter (\<lambda>task. status_or_inactive statuses task \<noteq> Str ''complete'' \<and>
                               status_or_inactive statuses task = Str ''active'') tasks;
              notStartedTasks =
                filter (\<lambda>task. status_or_inactive statuses task \<noteq> Str ''complete'' \<and>
                               status_or_inactive statuses task \<noteq> Str ''active'') tasks;
              totalTasks = length tasks;
              milestoneComplete =
                (0 < length tasks \<and>
                 list_all (\<lambda>task. obj_get statuses (name task) = Str ''complete'') tasks)
          in Inr \<lparr>mp_milestone = milestone,
                  mp_totalTasks = totalTasks,
                  mp_completedTasks = length completedTasks,
                  mp_inProgressTasks = length inProgressTasks,
                  mp_notStartedTasks = length notStartedTasks,
                  mp_percentage = progressPercentage (length completedTasks) totalTasks,
                  mp_complete = milestoneComplete,
                  mp_completed = completedTasks,
                  mp_inProgress = inProgressTasks,
                  mp_notStarted = notStartedTasks,
                  mp_statuses = statuses\<rparr>)"

text \<open>
  A milestone \<^verbatim>\<open>M1\<close> with \<open>t\<close> tasks related to it, the first \<open>c\<close> of them complete.
\<close>

definition task_name :: "nat \<Rightarrow> string" where
  "task_name i = ''task-'' @ replicate i CHR ''i''"

definition milestone_graph :: "nat \<Rightarrow> nat \<Rightarrow> KnowledgeGraph" where
  "milestone_graph c t =
    \<lparr>entities = \<lparr>name = ''M1'', entityType = ''milestone'', observations = []\<rparr> #
                 map (\<lambda>i. \<lparr>name = task_name i, entityType = ''task'', observations = []\<rparr>) [0..<t],
     relations = map (\<lambda>i. \<lparr>rfrom = task_name i, rto = ''M1'', relationType = ''related_to''\<rparr>) [0..<t]
               @ map (\<lambda>i. \<lparr>rfrom = task_name i, rto = ''status:complete'',
                            relationType = ''has_status''\<rparr>) [0..<c]\<rparr>"

definition milestone_three_tasks :: KnowledgeGraph where
  "milestone_three_tasks =
    \<lparr>entities = [\<lparr>name = ''M1'', entityType = ''milestone'', observations = []\<rparr>,
                 \<lparr>name = ''A'', entityType = ''task'', observations = []\<rparr>,
                 \<lparr>name = ''B'', entityType = ''task'', observations = []\<rparr>,
                 \<lparr>name = ''C'', entityType = ''task'', observations = []\<rparr>],
     relations = [\<lparr>rfrom = ''A'', rto = ''M1'', relationType = ''related_to''\<rparr>,
                  \<lparr>rfrom = ''B'', rto = ''M1'', relationType = ''related_to''\<rparr>,
                  \<lparr>rfrom = ''C'', rto = ''M1'', relationType = ''related_to''\<rparr>,
                  \<lparr>rfrom = ''A'', rto = ''status:complete'', relationType = ''has_status''\<rparr>,
                  \<lparr>rfrom = ''B'', rto = ''status:active'', relationType = ''has_status''\<rparr>]\<rparr>"

section \<open>Dates\<close>

text \<open>
  A \<^verbatim>\<open>Date\<close> is its time value: the milliseconds since 1970-01-01T00:00:00Z, or \<open>None\<close>
  for an Invalid Date, whose \<^verbatim>\<open>getTime()\<close> is \<^verbatim>\<open>NaN\<close>.
\<close>

type_synonym time_value = "int option"

text \<open>\<^verbatim>\<open>s.trim()\<close>: the white space of the byte range.\<close>

definition is_space :: "char \<Rightarrow> bool" where
  "is_space c = (c \<in> {CHR '' '', CHR 0x09, CHR 0x0A, CHR 0x0B, CHR 0x0C, CHR 0x0D})"

definition trim :: "string \<Rightarrow> string" where
  "trim s = rev (dropWhile is_space (rev (dropWhile is_space s)))"

definition digit :: "char \<Rightarrow> int option" where
  "digit c =
     (let k = (of_char c :: nat) in if 48 \<le> k \<and> k \<le> 57 then Some (int k - 48) else None)"

fun number :: "int \<Rightarrow> string \<Rightarrow> int option" where
  "number acc [] = Some acc"
| "number acc (c # cs) = (case digit c of Some d \<Rightarrow> number (10 * acc + d) cs | None \<Rightarrow> None)"

definition leap_year :: "int \<Rightarrow> bool" where
  "leap_year y = (y mod 4 = 0 \<and> (y mod 100 \<noteq> 0 \<or> y mod 400 = 0))"

definition days_in_month :: "int \<Rightarrow> int \<Rightarrow> int" where
  "days_in_month y m =
     (if m = 2 then (if leap_year y then 29 else 28)
      else if m = 4 \<or> m = 6 \<or> m = 9 \<or> m = 11 then 30 else 31)"

text \<open>The day number of a date of the proleptic Gregorian calendar, day 0 being 1970-01-01.\<close>

definition days_from_civil :: "int \<Rightarrow> int \<Rightarrow> int \<Rightarrow> int" where
  "days_from_civil y m d =
     (let y' = (if m \<le> 2 then y - 1 else y);
          era = y' div 400;
          yoe = y' - era * 400;
          doy = (153 * (if 2 < m then m - 3 else m + 9) + 2) div 5 + d - 1;
          doe = yoe * 365 + yoe div 4 - yoe div 100 + doy
      in era * 146097 + doe - 719468)"

text \<open>
  The date-only form \<^verbatim>\<open>YYYY-MM-DD\<close> of the date-time string format, for a day that exists:
  midnight UTC of that day.
\<close>

definition iso_date :: "string \<Rightarrow> int option" where
  "iso_date s =
     (case s of
        [y1, y2, y3, y4, h1, m1, m2, h2, d1, d2] \<Rightarrow>
          (if h1 = CHR ''-'' \<and> h2 = CHR ''-'' then
             (case (number 0 [y1, y2, y3, y4], number 0 [m1, m2], number 0 [d1, d2]) of
                (Some y, Some m, Some d) \<Rightarrow>
                  if 1 \<le> m \<and> m \<le> 12 \<and> 1 \<le> d \<and> d \<le> days_in_month y m
                  then Some (days_from_civil y m d * 86400000) else None
              | _ \<Rightarrow> None)
           else None)
      | _ \<Rightarrow> None)"

text \<open>
  \<^verbatim>\<open>new Date(s)\<close> for a string. What a string of any other form parses to (another form
  of the format, or whatever the engine accepts beyond it) is the parameter \<open>other\<close>.
\<close>

definition new_Date :: "(string \<Rightarrow> time_value) \<Rightarrow> string \<Rightarrow> time_value" where
  "new_Date other s = (case iso_date s of Some t \<Rightarrow> Some t | None \<Rightarrow> other s)"

section \<open>Sorting with a comparator\<close>

text \<open>
  \<^verbatim>\<open>xs.sort(cmp)\<close>: a stable sort; a comparator result \<^verbatim>\<open>NaN\<close> counts as \<open>0\<close>. The
  comparator of the model returns that number. For a comparator that is a consistent
  ordering every conforming sort returns the list below; for any other the order is left
  to the engine, and the model gives the order of this insertion sort.
\<close>

fun insert_sorted :: "('a \<Rightarrow> 'a \<Rightarrow> int) \<Rightarrow> 'a \<Rightarrow> 'a list \<Rightarrow> 'a list" where
  "insert_sorted cmp x [] = [x]"
| "insert_sorted cmp x (y # ys) =
     (if cmp x y \<le> 0 then x # y # ys else y # insert_sorted cmp x ys)"

definition js_sort :: "('a \<Rightarrow> 'a \<Rightarrow> int) \<Rightarrow> 'a list \<Rightarrow> 'a list" where
  "js_sort cmp xs = foldr (insert_sorted cmp) xs []"

section \<open>Decision history\<close>

text \<open>
  The date given to a decision: \<^verbatim>\<open>new Date(dateObs.split(':')[1].trim())\<close> for the first
  observation that starts with \<^verbatim>\<open>Date:\<close>, else \<^verbatim>\<open>new Date(0)\<close>. Such an observation has a
  piece after its first colon, so the last branch is never taken.
\<close>

definition decision_date :: "(string \<Rightarrow> time_value) \<Rightarrow> Entity \<Rightarrow> time_value" where
  "decision_date other decision =
     (case find (\<lambda>ob. startsWith ob ''Date:'') (observations decision) of
        Some dateObs \<Rightarrow>
          (case index (split CHR '':'' dateObs) 1 of
             Some piece \<Rightarrow> new_Date other (trim piece)
           | None \<Rightarrow> None)
      | None \<Rightarrow> Some 0)"

text \<open>\<^verbatim>\<open>b.date.getTime() - a.date.getTime()\<close>, with \<^verbatim>\<open>NaN\<close> counted as \<open>0\<close>.\<close>

definition by_date_descending :: "Entity \<times> time_value \<Rightarrow> Entity \<times> time_value \<Rightarrow> int" where
  "by_date_descending a b =
     (case (snd b, snd a) of (Some tb, Some ta) \<Rightarrow> tb - ta | _ \<Rightarrow> 0)"

text \<open>
  The decisions collected by \<^verbatim>\<open>getDecisionHistory\<close>: those with a \<^verbatim>\<open>related_to\<close> relation to
  the project, then those with one to a component that the project \<^verbatim>\<open>contains\<close>, each name
  once.
\<close>

definition collect_decisions :: "string \<Rightarrow> KnowledgeGraph \<Rightarrow> Entity list" where
  "collect_decisions projectName graph =
     (let decisions = lookup_each
            (\<lambda>r. relationType r = ''related_to'' \<and> rto r = projectName)
            (\<lambda>r e. name e = rfrom r \<and> entityType e = ''decision'') graph;
          components = lookup_each
            (\<lambda>r. relationType r = ''contains'' \<and> rfrom r = projectName)
            (\<lambda>r e. name e = rto r \<and> entityType e = ''component'') graph
      in foldl (\<lambda>decisions component.
                  foldl (\<lambda>decisions relation.
                           if relationType relation = ''related_to'' \<and> rto relation = name component
                           then (case find (\<lambda>e. name e = rfrom relation \<and>
                                                 entityType e = ''decision'') (entities graph) of
                                   Some decision \<Rightarrow>
                                     if \<not> list_ex (\<lambda>d. name d = name decision) decisions
                                     then decisions @ [decision] else decisions
                                 | None \<Rightarrow> decisions)
                           else decisions)
                    decisions (relations graph))
           decisions components)"

record DecisionHistory =
  dh_project :: Entity
  dh_decisions :: "Entity list"

definition getDecisionHistory ::
  "(string \<Rightarrow> time_value) \<Rightarrow> string \<Rightarrow> KnowledgeGraph \<Rightarrow> error + DecisionHistory" where
  "getDecisionHistory other projectName graph =
     (case find (\<lambda>e. name e = projectName \<and> entityType e = ''project'') (entities graph) of
        None \<Rightarrow> Inl (ProjectNotFound projectName)
      | Some project \<Rightarrow>
          let decisions = collect_decisions projectName graph;
              decisionsWithDates =
                map (\<lambda>decision. (decision, decision_date other decision)) decisions;
              decisionsWithDates = js_sort by_date_descending decisionsWithDates
          in Inr \<lparr>dh_project = project, dh_decisions = map fst decisionsWithDates\<rparr>)"

text \<open>The time value of a decision's date, read as a number where it is one.\<close>

definition date_ms :: "(string \<Rightarrow> time_value) \<Rightarrow> Entity \<Rightarrow> int" where
  "date_ms other decision = (case decision_date other decision of Some t \<Rightarrow> t | None \<Rightarrow> 0)"

definition no_other_format :: "string \<Rightarrow> time_value" where
  "no_other_format s = None"

definition dated_decisions :: KnowledgeGraph where
  "dated_decisions =
    \<lparr>entities = [\<lparr>name = ''Shop'', entityType = ''project'', observations = []\<rparr>,
                 \<lparr>name = ''Cart'', entityType = ''component'', observations = []\<rparr>,
                 \<lparr>name = ''use-cobol'', entityType = ''decision'',
                    observations = [''Date: 1960-01-01'']\<rparr>,
                 \<lparr>name = ''use-postgres'', entityType = ''decision'',
                    observations = [''chosen over MySQL'']\<rparr>,
                 \<lparr>name = ''use-redis'', entityType = ''decision'',
                    observations = [''cache layer'', ''Date: 2024-03-01'']\<rparr>],
     relations = [\<lparr>rfrom = ''Shop'', rto = ''Cart'', relationType = ''contains''\<rparr>,
                  \<lparr>rfrom = ''use-cobol'', rto = ''Shop'', relationType = ''related_to''\<rparr>,
                  \<lparr>rfrom = ''use-postgres'', rto = ''Shop'', relationType = ''related_to''\<rparr>,
                  \<lparr>rfrom = ''use-redis'', rto = ''Cart'', relationType = ''related_to''\<rparr>,
                  \<lparr>rfrom = ''use-postgres'', rto = ''Cart'', relationType = ''related_to''\<rparr>]\<rparr>"

section \<open>Verified properties\<close>

lemma setEntityStatus_ok:
  "v \<in> set VALID_STATUS_VALUES \<Longrightarrow>
   setEntityStatus n v g =
     (Inr (), g\<lparr>relations := filter (\<lambda>r. \<not> (rfrom r = n \<and> relationType r = ''has_status'')) (relations g)
        @ [status_relation n v]\<rparr>)"
  by (simp add: setEntityStatus_def status_relation_def)

lemma outgoing_setEntityStatus:
  "v \<in> set VALID_STATUS_VALUES \<Longrightarrow>
   outgoing n ''has_status'' (snd (setEntityStatus n v g)) = [status_relation n v]"
  by (simp add: setEntityStatus_ok outgoing_def status_relation_def)

lemma setEntityStatus_idem:
  "v \<in> set VALID_STATUS_VALUES \<Longrightarrow>
   setEntityStatus n v (snd (setEntityStatus n v g)) = setEntityStatus n v g"
  by (simp add: setEntityStatus_ok status_relation_def)

lemma setEntityPriority_ok:
  "v \<in> set VALID_PRIORITY_VALUES \<Longrightarrow>
   setEntityPriority n v g =
     (Inr (), g\<lparr>relations := filter (\<lambda>r. \<not> (rfrom r = n \<and> relationType r = ''has_priority'')) (relations g)
        @ [priority_relation n v]\<rparr>)"
  by (simp add: setEntityPriority_def priority_relation_def)

lemma outgoing_setEntityPriority:
  "v \<in> set VALID_PRIORITY_VALUES \<Longrightarrow>
   outgoing n ''has_priority'' (snd (setEntityPriority n v g)) = [priority_relation n v]"
  by (simp add: setEntityPriority_ok outgoing_def priority_relation_def)

lemma setEntityPriority_idem:
  "v \<in> set VALID_PRIORITY_VALUES \<Longrightarrow>
   setEntityPriority n v (snd (setEntityPriority n v g)) = setEntityPriority n v g"
  by (simp add: setEntityPriority_ok priority_relation_def)

text \<open>
  Claim C1. For every entity name \<open>n\<close> and legal status values \<open>v\<close>, \<open>w\<close>: the call
  \<^verbatim>\<open>setEntityStatus(n, v)\<close> succeeds and the saved graph holds exactly one \<^verbatim>\<open>has_status\<close>
  relation from \<open>n\<close>, the one to \<^verbatim>\<open>status:v\<close>, however many there were before; repeating
  the call changes nothing; and a later call with \<open>w\<close> leaves exactly the relation to
  \<^verbatim>\<open>status:w\<close>. The same for \<^verbatim>\<open>setEntityPriority\<close> and \<^verbatim>\<open>has_priority\<close>.
\<close>

theorem set_status_priority_single_valued:
  assumes "v \<in> set VALID_STATUS_VALUES" and "w \<in> set VALID_STATUS_VALUES"
    and "p \<in> set VALID_PRIORITY_VALUES" and "q \<in> set VALID_PRIORITY_VALUES"
  shows "fst (setEntityStatus n v g) = Inr () \<and>
         outgoing n ''has_status'' (snd (setEntityStatus n v g)) = [status_relation n v] \<and>
         setEntityStatus n v (snd (setEntityStatus n v g)) = setEntityStatus n v g \<and>
         outgoing n ''has_status'' (snd (setEntityStatus n w (snd (setEntityStatus n v g))))
           = [status_relation n w] \<and>
         fst (setEntityPriority n p g) = Inr () \<and>
         outgoing n ''has_priority'' (snd (setEntityPriority n p g)) = [priority_relation n p] \<and>
         setEntityPriority n p (snd (setEntityPriority n p g)) = setEntityPriority n p g \<and>
         outgoing n ''has_priority'' (snd (setEntityPriority n q (snd (setEntityPriority n p g))))
           = [priority_relation n q]"
proof -
  have s1: "fst (setEntityStatus n v g) = Inr ()"
    using assms(1) by (simp add: setEntityStatus_ok)
  have p1: "fst (setEntityPriority n p g) = Inr ()"
    using assms(3) by (simp add: setEntityPriority_ok)
  show ?thesis
    using s1 p1 outgoing_setEntityStatus [OF assms(1)] outgoing_setEntityStatus [OF assms(2)]
      setEntityStatus_idem [OF assms(1)] outgoing_setEntityPriority [OF assms(3)]
      outgoing_setEntityPriority [OF assms(4)] setEntityPriority_idem [OF assms(3)]
    by blast
qed

theorem set_status_priority_single_valued_witness:
  "length (outgoing ''T1'' ''has_status'' graph_two_statuses) = 2 \<and>
   length (outgoing ''T1'' ''has_priority'' graph_two_statuses) = 2 \<and>
   outgoing ''T1'' ''has_status'' (snd (setEntityStatus ''T1'' ''complete'' graph_two_statuses))
     = [\<lparr>rfrom = ''T1'', rto = ''status:complete'', relationType = ''has_status''\<rparr>] \<and>
   outgoing ''T1'' ''has_status''
      (snd (setEntityStatus ''T1'' ''active'' (snd (setEntityStatus ''T1'' ''complete'' graph_two_statuses))))
     = [\<lparr>rfrom = ''T1'', rto = ''status:active'', relationType = ''has_status''\<rparr>] \<and>
   outgoing ''T1'' ''has_priority''
      (snd (setEntityPriority ''T1'' ''low'' (snd (setEntityPriority ''T1'' ''high'' graph_two_statuses))))
     = [\<lparr>rfrom = ''T1'', rto = ''priority:low'', relationType = ''has_priority''\<rparr>]"
  using set_status_priority_single_valued [of "''complete''" "''active''" "''high''" "''low''" "''T1''"
      graph_two_statuses]
  by (simp add: VALID_STATUS_VALUES_def VALID_PRIORITY_VALUES_def status_relation_def
      priority_relation_def outgoing_def graph_two_statuses_def)

lemma find_None_names: "(find (\<lambda>e. name e = n) es = None) = (n \<notin> set (map name es))"
  by (auto simp: find_None_iff)

lemma relation_eq:
  "((x::Relation) = r) = (rfrom x = rfrom r \<and> rto x = rto r \<and> relationType x = relationType r)"
  by (cases x, cases r) auto

lemma relation_present:
  "list_ex (\<lambda>x. rfrom x = rfrom r \<and> rto x = rto r \<and> relationType x = relationType r) xs
     = ((r::Relation) \<in> set xs)"
proof -
  have "\<And>x. (rfrom x = rfrom r \<and> rto x = rto r \<and> relationType x = relationType r) = (x = r)"
    by (simp add: relation_eq)
  then show ?thesis by (simp add: list_ex_iff)
qed

lemma check_endpoints_None:
  "(check_endpoints es rs = None) =
     (\<forall>r\<in>set rs. rfrom r \<in> set (map name es) \<and> rto r \<in> set (map name es))"
  by (induction rs) (auto simp: find_None_names Let_def)

lemma check_endpoints_Some:
  "check_endpoints es rs = Some err \<Longrightarrow>
     \<exists>r\<in>set rs. (err = SourceEntityMissing (rfrom r) \<and> rfrom r \<notin> set (map name es)) \<or>
               (err = TargetEntityMissing (rto r) \<and> rto r \<notin> set (map name es))"
  by (induction rs) (auto simp: find_None_names Let_def split: if_splits)

lemma createRelations_valid:
  assumes "\<forall>r\<in>set rs. validateRelationType (relationType r)"
  shows "createRelations rs g =
     (case check_endpoints (entities g) rs of
        Some err \<Rightarrow> (Inl err, g)
      | None \<Rightarrow> (Inr (filter (\<lambda>r. r \<notin> set (relations g)) rs),
                 g\<lparr>relations := relations g @ filter (\<lambda>r. r \<notin> set (relations g)) rs\<rparr>))"
proof -
  have "find (\<lambda>relation. \<not> validateRelationType (relationType relation)) rs = None"
    using assms by (simp add: find_None_iff)
  then show ?thesis
    by (simp add: createRelations_def relation_present Let_def split: option.splits)
qed

lemma createRelations_failure_unchanged:
  "isl (fst (createRelations rs g)) \<Longrightarrow> snd (createRelations rs g) = g"
  by (auto simp: createRelations_def Let_def split: option.splits)

lemma createRelations_present_noop:
  assumes "set rs \<subseteq> set (relations g)"
  shows "snd (createRelations rs g) = g"
proof -
  have "filter (\<lambda>r. r \<notin> set (relations g)) rs = []"
    using assms by (auto simp: filter_empty_conv)
  then show ?thesis
    by (auto simp: createRelations_def relation_present Let_def split: option.splits)
qed

lemma find_invalid_type_first:
  assumes "\<forall>x\<in>set pre. validateRelationType (relationType x)"
    and "\<not> validateRelationType (relationType r)"
  shows "find (\<lambda>relation. \<not> validateRelationType (relationType relation)) (pre @ r # post)
           = Some r"
  using assms by (induction pre) auto

lemma check_endpoints_first_source:
  assumes "\<forall>x\<in>set pre. rfrom x \<in> set (map name es) \<and> rto x \<in> set (map name es)"
    and "rfrom r \<notin> set (map name es)"
  shows "check_endpoints es (pre @ r # post) = Some (SourceEntityMissing (rfrom r))"
  using assms by (induction pre) (auto simp: find_None_names Let_def)

lemma check_endpoints_first_target:
  assumes "\<forall>x\<in>set pre. rfrom x \<in> set (map name es) \<and> rto x \<in> set (map name es)"
    and "rfrom r \<in> set (map name es)" and "rto r \<notin> set (map name es)"
  shows "check_endpoints es (pre @ r # post) = Some (TargetEntityMissing (rto r))"
  using assms by (induction pre) (auto simp: find_None_names Let_def)

text \<open>
  Claim C2 (as amended). For every batch passed to \<^verbatim>\<open>createRelations\<close>: a batch of triples
  already present leaves the graph as it is, and a call that fails leaves the persisted
  graph unchanged. A batch with an illegal relation type fails with the invalid-type error
  citing the first illegal tag of the batch. When all relation types are legal and some
  relation has a \<^verbatim>\<open>from\<close> or \<^verbatim>\<open>to\<close> naming no entity, the call fails with the not-found
  error of the first such relation in batch order, citing its source when that is missing
  and otherwise its target, and nothing is added. When all types are legal and every
  endpoint exists, exactly the triples not yet present are appended, in batch order.
\<close>

theorem createRelations_all_or_nothing:
  "(set rs \<subseteq> set (relations g) \<longrightarrow> snd (createRelations rs g) = g) \<and>
   (isl (fst (createRelations rs g)) \<longrightarrow> snd (createRelations rs g) = g) \<and>
   (rs = pre @ r # post \<and> (\<forall>x\<in>set pre. validateRelationType (relationType x)) \<and>
      \<not> validateRelationType (relationType r) \<longrightarrow>
        createRelations rs g = (Inl (InvalidRelationType (relationType r)), g)) \<and>
   ((\<forall>x\<in>set rs. validateRelationType (relationType x)) \<and> rs = pre @ r # post \<and>
      (\<forall>x\<in>set pre. rfrom x \<in> entity_names g \<and> rto x \<in> entity_names g) \<and>
      rfrom r \<notin> entity_names g \<longrightarrow>
        createRelations rs g = (Inl (SourceEntityMissing (rfrom r)), g)) \<and>
   ((\<forall>x\<in>set rs. validateRelationType (relationType x)) \<and> rs = pre @ r # post \<and>
      (\<forall>x\<in>set pre. rfrom x \<in> entity_names g \<and> rto x \<in> entity_names g) \<and>
      rfrom r \<in> entity_names g \<and> rto r \<notin> entity_names g \<longrightarrow>
        createRelations rs g = (Inl (TargetEntityMissing (rto r)), g)) \<and>
   ((\<forall>x\<in>set rs. validateRelationType (relationType x)) \<and>
      (\<exists>x\<in>set rs. rfrom x \<notin> entity_names g \<or> rto x \<notin> entity_names g) \<longrightarrow>
        is_not_found (fst (createRelations rs g)) \<and>
        (\<exists>x\<in>set rs.
           (fst (createRelations rs g) = Inl (SourceEntityMissing (rfrom x)) \<and>
              rfrom x \<notin> entity_names g) \<or>
           (fst (createRelations rs g) = Inl (TargetEntityMissing (rto x)) \<and>
              rto x \<notin> entity_names g)) \<and>
        snd (createRelations rs g) = g) \<and>
   ((\<forall>x\<in>set rs. validateRelationType (relationType x)) \<and>
      (\<forall>x\<in>set rs. rfrom x \<in> entity_names g \<and> rto x \<in> entity_names g) \<longrightarrow>
        createRelations rs g =
          (Inr (filter (\<lambda>x. x \<notin> set (relations g)) rs),
           g\<lparr>relations := relations g @ filter (\<lambda>x. x \<notin> set (relations g)) rs\<rparr>))"
proof (intro conjI impI; (elim conjE)?)
  assume "set rs \<subseteq> set (relations g)"
  then show "snd (createRelations rs g) = g" by (rule createRelations_present_noop)
next
  assume "isl (fst (createRelations rs g))"
  then show "snd (createRelations rs g) = g" by (rule createRelations_failure_unchanged)
next
  assume rs: "rs = pre @ r # post"
    and pre: "\<forall>x\<in>set pre. validateRelationType (relationType x)"
    and r: "\<not> validateRelationType (relationType r)"
  show "createRelations rs g = (Inl (InvalidRelationType (relationType r)), g)"
    unfolding rs by (simp add: createRelations_def find_invalid_type_first [OF pre r])
next
  assume valid: "\<forall>x\<in>set rs. validateRelationType (relationType x)"
    and rs: "rs = pre @ r # post"
    and pre: "\<forall>x\<in>set pre. rfrom x \<in> entity_names g \<and> rto x \<in> entity_names g"
    and r: "rfrom r \<notin> entity_names g"
  have "check_endpoints (entities g) rs = Some (SourceEntityMissing (rfrom r))"
    unfolding rs using pre r
    by (intro check_endpoints_first_source) (simp_all add: entity_names_def)
  then show "createRelations rs g = (Inl (SourceEntityMissing (rfrom r)), g)"
    by (simp add: createRelations_valid [OF valid])
next
  assume valid: "\<forall>x\<in>set rs. validateRelationType (relationType x)"
    and rs: "rs = pre @ r # post"
    and pre: "\<forall>x\<in>set pre. rfrom x \<in> entity_names g \<and> rto x \<in> entity_names g"
    and r: "rfrom r \<in> entity_names g" "rto r \<notin> entity_names g"
  have "check_endpoints (entities g) rs = Some (TargetEntityMissing (rto r))"
    unfolding rs using pre r
    by (intro check_endpoints_first_target) (simp_all add: entity_names_def)
  then show "createRelations rs g = (Inl (TargetEntityMissing (rto r)), g)"
    by (simp add: createRelations_valid [OF valid])
next
  assume valid: "\<forall>x\<in>set rs. validateRelationType (relationType x)"
    and miss: "\<exists>x\<in>set rs. rfrom x \<notin> entity_names g \<or> rto x \<notin> entity_names g"
  from miss have "check_endpoints (entities g) rs \<noteq> None"
    by (auto simp: check_endpoints_None entity_names_def)
  then obtain err where err: "check_endpoints (entities g) rs = Some err" by auto
  from check_endpoints_Some [OF err] err
  show cited: "\<exists>x\<in>set rs.
         (fst (createRelations rs g) = Inl (SourceEntityMissing (rfrom x)) \<and>
            rfrom x \<notin> entity_names g) \<or>
         (fst (createRelations rs g) = Inl (TargetEntityMissing (rto x)) \<and>
            rto x \<notin> entity_names g)"
    by (auto simp: createRelations_valid [OF valid] entity_names_def)
  then show "is_not_found (fst (createRelations rs g))"
    by (auto simp: is_not_found_def)
  from err show "snd (createRelations rs g) = g"
    by (simp add: createRelations_valid [OF valid])
next
  assume valid: "\<forall>x\<in>set rs. validateRelationType (relationType x)"
    and all: "\<forall>x\<in>set rs. rfrom x \<in> entity_names g \<and> rto x \<in> entity_names g"
  from all have none: "check_endpoints (entities g) rs = None"
    by (simp add: check_endpoints_None entity_names_def)
  show "createRelations rs g =
          (Inr (filter (\<lambda>x. x \<notin> set (relations g)) rs),
           g\<lparr>relations := relations g @ filter (\<lambda>x. x \<notin> set (relations g)) rs\<rparr>)"
    by (simp add: createRelations_valid [OF valid] none)
qed

text \<open>
  Claim C2 as stated fails where the batch also carries an illegal relation type: the type
  loop runs first, so a batch whose \<^verbatim>\<open>from\<close> names no entity is rejected with the
  invalid-type error, not with a not-found error.
\<close>

theorem createRelations_invalid_type_counterexample:
  "''A'' \<notin> entity_names empty_graph \<and>
   fst (createRelations [\<lparr>rfrom = ''A'', rto = ''B'', relationType = ''bogus''\<rparr>] empty_graph)
     = Inl (InvalidRelationType ''bogus'') \<and>
   \<not> is_not_found
       (fst (createRelations [\<lparr>rfrom = ''A'', rto = ''B'', relationType = ''bogus''\<rparr>] empty_graph))"
  by (simp add: createRelations_def empty_graph_def entity_names_def validateRelationType_def
      VALID_RELATION_TYPES_def is_not_found_def)

theorem createRelations_all_or_nothing_witness:
  "snd (createRelations [\<lparr>rfrom = ''Alpha'', rto = ''Beta'', relationType = ''contains''\<rparr>]
         three_nodes) = three_nodes \<and>
   createRelations [\<lparr>rfrom = ''Ghost'', rto = ''Nowhere'', relationType = ''uses''\<rparr>,
                    \<lparr>rfrom = ''Alpha'', rto = ''Zeta'', relationType = ''uses''\<rparr>] three_nodes
     = (Inl (SourceEntityMissing ''Ghost''), three_nodes) \<and>
   createRelations [\<lparr>rfrom = ''Alpha'', rto = ''Gamma'', relationType = ''uses''\<rparr>,
                    \<lparr>rfrom = ''Alpha'', rto = ''Delta'', relationType = ''uses''\<rparr>,
                    \<lparr>rfrom = ''Nobody'', rto = ''Beta'', relationType = ''uses''\<rparr>] three_nodes
     = (Inl (TargetEntityMissing ''Delta''), three_nodes) \<and>
   createRelations [\<lparr>rfrom = ''Alpha'', rto = ''Gamma'', relationType = ''uses''\<rparr>,
                    \<lparr>rfrom = ''Ghost'', rto = ''Beta'', relationType = ''bogus''\<rparr>,
                    \<lparr>rfrom = ''Alpha'', rto = ''Beta'', relationType = ''wrong''\<rparr>] three_nodes
     = (Inl (InvalidRelationType ''bogus''), three_nodes) \<and>
   createRelations [\<lparr>rfrom = ''Alpha'', rto = ''Beta'', relationType = ''contains''\<rparr>,
                    \<lparr>rfrom = ''Alpha'', rto = ''Gamma'', relationType = ''uses''\<rparr>] three_nodes
     = (Inr [\<lparr>rfrom = ''Alpha'', rto = ''Gamma'', relationType = ''uses''\<rparr>],
        three_nodes\<lparr>relations := relations three_nodes @
          [\<lparr>rfrom = ''Alpha'', rto = ''Gamma'', relationType = ''uses''\<rparr>]\<rparr>)"
proof -
  let ?ab = "\<lparr>rfrom = ''Alpha'', rto = ''Beta'', relationType = ''contains''\<rparr>"
  let ?ag = "\<lparr>rfrom = ''Alpha'', rto = ''Gamma'', relationType = ''uses''\<rparr>"
  let ?gn = "\<lparr>rfrom = ''Ghost'', rto = ''Nowhere'', relationType = ''uses''\<rparr>"
  let ?az = "\<lparr>rfrom = ''Alpha'', rto = ''Zeta'', relationType = ''uses''\<rparr>"
  let ?ad = "\<lparr>rfrom = ''Alpha'', rto = ''Delta'', relationType = ''uses''\<rparr>"
  let ?nb = "\<lparr>rfrom = ''Nobody'', rto = ''Beta'', relationType = ''uses''\<rparr>"
  let ?gb = "\<lparr>rfrom = ''Ghost'', rto = ''Beta'', relationType = ''bogus''\<rparr>"
  let ?aw = "\<lparr>rfrom = ''Alpha'', rto = ''Beta'', relationType = ''wrong''\<rparr>"
  have names: "entity_names three_nodes = {''Alpha'', ''Beta'', ''Gamma''}"
    by (auto simp: three_nodes_def entity_names_def)
  have uses: "validateRelationType ''uses''" and contains: "validateRelationType ''contains''"
    and bogus: "\<not> validateRelationType ''bogus''"
    by (simp_all add: validateRelationType_def VALID_RELATION_TYPES_def)
  have rels: "relations three_nodes =
      [?ab, \<lparr>rfrom = ''Gamma'', rto = ''Beta'', relationType = ''part_of''\<rparr>,
       \<lparr>rfrom = ''Alpha'', rto = ''Gamma'', relationType = ''contains''\<rparr>]"
    by (simp add: three_nodes_def)
  have a: "snd (createRelations [?ab] three_nodes) = three_nodes"
    using createRelations_all_or_nothing [where rs = "[?ab]" and g = three_nodes]
    by (simp add: rels)
  have b: "createRelations [?gn, ?az] three_nodes = (Inl (SourceEntityMissing ''Ghost''), three_nodes)"
    using createRelations_all_or_nothing
      [where rs = "[?gn, ?az]" and g = three_nodes and pre = "[]" and r = ?gn and post = "[?az]"]
    by (simp add: names uses)
  have c: "createRelations [?ag, ?ad, ?nb] three_nodes
             = (Inl (TargetEntityMissing ''Delta''), three_nodes)"
    using createRelations_all_or_nothing
      [where rs = "[?ag, ?ad, ?nb]" and g = three_nodes and pre = "[?ag]" and r = ?ad
         and post = "[?nb]"]
    by (simp add: names uses)
  have d: "createRelations [?ag, ?gb, ?aw] three_nodes
             = (Inl (InvalidRelationType ''bogus''), three_nodes)"
    using createRelations_all_or_nothing
      [where rs = "[?ag, ?gb, ?aw]" and g = three_nodes and pre = "[?ag]" and r = ?gb
         and post = "[?aw]"]
    by (simp add: uses bogus)
  have e: "createRelations [?ab, ?ag] three_nodes
             = (Inr [?ag], three_nodes\<lparr>relations := relations three_nodes @ [?ag]\<rparr>)"
    using createRelations_all_or_nothing [where rs = "[?ab, ?ag]" and g = three_nodes]
    by (simp add: names uses contains rels)
  from a b c d e show ?thesis by blast
qed

lemma searchNodes_closed:
  "r \<in> set (relations (searchNodes q g)) \<Longrightarrow>
     rfrom r \<in> entity_names (searchNodes q g) \<and> rto r \<in> entity_names (searchNodes q g)"
  by (simp add: searchNodes_def entity_names_def Let_def)

lemma openNodes_closed:
  "r \<in> set (relations (openNodes ns g)) \<Longrightarrow>
     rfrom r \<in> entity_names (openNodes ns g) \<and> rto r \<in> entity_names (openNodes ns g)"
  by (simp add: openNodes_def entity_names_def Let_def)

lemma deleteEntities_eq:
  "deleteEntities ns g =
     (Inr (), \<lparr>entities = filter (\<lambda>e. name e \<notin> set ns) (entities g),
               relations = filter (\<lambda>r. rfrom r \<notin> set ns \<and> rto r \<notin> set ns) (relations g)\<rparr>)"
  by (simp add: deleteEntities_def Let_def)

text \<open>
  Claim C3. For every graph and every list of names, \<^verbatim>\<open>deleteEntities\<close> succeeds, keeps
  (in order) exactly the entities whose name is not listed and exactly the relations
  neither of whose endpoints is listed, so no listed name is left as an entity or as an
  endpoint; and on the resulting graph every relation returned by \<^verbatim>\<open>searchNodes\<close> or
  \<^verbatim>\<open>openNodes\<close> has both its endpoints among the returned entities.
\<close>

theorem deleteEntities_cascades:
  "fst (deleteEntities ns g) = Inr () \<and>
   entities (snd (deleteEntities ns g)) = filter (\<lambda>e. name e \<notin> set ns) (entities g) \<and>
   relations (snd (deleteEntities ns g))
     = filter (\<lambda>r. rfrom r \<notin> set ns \<and> rto r \<notin> set ns) (relations g) \<and>
   entity_names (snd (deleteEntities ns g)) \<inter> set ns = {} \<and>
   (\<forall>r\<in>set (relations (snd (deleteEntities ns g))). rfrom r \<notin> set ns \<and> rto r \<notin> set ns) \<and>
   (\<forall>r\<in>set (relations (searchNodes q (snd (deleteEntities ns g)))).
      rfrom r \<in> entity_names (searchNodes q (snd (deleteEntities ns g))) \<and>
      rto r \<in> entity_names (searchNodes q (snd (deleteEntities ns g)))) \<and>
   (\<forall>r\<in>set (relations (openNodes ms (snd (deleteEntities ns g)))).
      rfrom r \<in> entity_names (openNodes ms (snd (deleteEntities ns g))) \<and>
      rto r \<in> entity_names (openNodes ms (snd (deleteEntities ns g))))"
proof (intro conjI ballI)
  show "fst (deleteEntities ns g) = Inr ()" by (simp add: deleteEntities_eq)
  show "entities (snd (deleteEntities ns g)) = filter (\<lambda>e. name e \<notin> set ns) (entities g)"
    by (simp add: deleteEntities_eq)
  show "relations (snd (deleteEntities ns g))
     = filter (\<lambda>r. rfrom r \<notin> set ns \<and> rto r \<notin> set ns) (relations g)"
    by (simp add: deleteEntities_eq)
  show "entity_names (snd (deleteEntities ns g)) \<inter> set ns = {}"
    by (auto simp: deleteEntities_eq entity_names_def)
next
  fix r assume "r \<in> set (relations (snd (deleteEntities ns g)))"
  then show "rfrom r \<notin> set ns" and "rto r \<notin> set ns" by (simp_all add: deleteEntities_eq)
next
  fix r assume "r \<in> set (relations (searchNodes q (snd (deleteEntities ns g))))"
  from searchNodes_closed [OF this]
  show "rfrom r \<in> entity_names (searchNodes q (snd (deleteEntities ns g)))"
    and "rto r \<in> entity_names (searchNodes q (snd (deleteEntities ns g)))" by blast+
next
  fix r assume "r \<in> set (relations (openNodes ms (snd (deleteEntities ns g))))"
  from openNodes_closed [OF this]
  show "rfrom r \<in> entity_names (openNodes ms (snd (deleteEntities ns g)))"
    and "rto r \<in> entity_names (openNodes ms (snd (deleteEntities ns g)))" by blast+
qed

theorem deleteEntities_cascades_witness:
  "entities (snd (deleteEntities [''Beta''] three_nodes))
     = [\<lparr>name = ''Alpha'', entityType = ''project'', observations = []\<rparr>,
        \<lparr>name = ''Gamma'', entityType = ''task'', observations = []\<rparr>] \<and>
   relations (snd (deleteEntities [''Beta''] three_nodes))
     = [\<lparr>rfrom = ''Alpha'', rto = ''Gamma'', relationType = ''contains''\<rparr>] \<and>
   entity_names (snd (deleteEntities [''Beta''] three_nodes)) \<inter> set [''Beta''] = {} \<and>
   relations (searchNodes ''A'' (snd (deleteEntities [''Beta''] three_nodes)))
     = [\<lparr>rfrom = ''Alpha'', rto = ''Gamma'', relationType = ''contains''\<rparr>] \<and>
   relations (openNodes [''Alpha'', ''Gamma'', ''Beta''] (snd (deleteEntities [''Beta''] three_nodes)))
     = [\<lparr>rfrom = ''Alpha'', rto = ''Gamma'', relationType = ''contains''\<rparr>] \<and>
   entity_names (searchNodes ''A'' (snd (deleteEntities [''Beta''] three_nodes)))
     = {''Alpha'', ''Gamma''}"
proof -
  have t: "entity_names (snd (deleteEntities [''Beta''] three_nodes)) \<inter> set [''Beta''] = {}"
    using deleteEntities_cascades [of "[''Beta'']" three_nodes "''A''" "[''Alpha'', ''Gamma'', ''Beta'']"]
    by blast
  have e1: "entities (snd (deleteEntities [''Beta''] three_nodes))
     = [\<lparr>name = ''Alpha'', entityType = ''project'', observations = []\<rparr>,
        \<lparr>name = ''Gamma'', entityType = ''task'', observations = []\<rparr>]"
    by code_simp
  have e2: "relations (snd (deleteEntities [''Beta''] three_nodes))
     = [\<lparr>rfrom = ''Alpha'', rto = ''Gamma'', relationType = ''contains''\<rparr>]"
    by code_simp
  have e3: "relations (searchNodes ''A'' (snd (deleteEntities [''Beta''] three_nodes)))
     = [\<lparr>rfrom = ''Alpha'', rto = ''Gamma'', relationType = ''contains''\<rparr>]"
    by code_simp
  have e4: "relations (openNodes [''Alpha'', ''Gamma'', ''Beta''] (snd (deleteEntities [''Beta''] three_nodes)))
     = [\<lparr>rfrom = ''Alpha'', rto = ''Gamma'', relationType = ''contains''\<rparr>]"
    by code_simp
  have e5: "entity_names (searchNodes ''A'' (snd (deleteEntities [''Beta''] three_nodes)))
     = {''Alpha'', ''Gamma''}"
    by code_simp
  from t e1 e2 e3 e4 e5 show ?thesis by blast
qed

text \<open>
  Claim C10. \<^verbatim>\<open>setEntityStatus\<close> and \<^verbatim>\<open>setEntityPriority\<close> never look the entity up: for a
  name \<open>n\<close> that no entity carries and legal values, both succeed and the saved graph
  holds a \<^verbatim>\<open>has_status\<close> (\<^verbatim>\<open>has_priority\<close>) relation from \<open>n\<close> although \<open>n\<close> is still not an
  entity, so the saved graph has a dangling edge; \<^verbatim>\<open>createRelations\<close> rejects the very same
  relation with the missing-source error.
\<close>

theorem set_status_priority_dangling:
  assumes "n \<notin> entity_names g" and "v \<in> set VALID_STATUS_VALUES"
    and "p \<in> set VALID_PRIORITY_VALUES"
  shows "fst (setEntityStatus n v g) = Inr () \<and>
         status_relation n v \<in> set (relations (snd (setEntityStatus n v g))) \<and>
         n \<notin> entity_names (snd (setEntityStatus n v g)) \<and>
         \<not> endpoints_exist (snd (setEntityStatus n v g)) \<and>
         createRelations [status_relation n v] g = (Inl (SourceEntityMissing n), g) \<and>
         fst (setEntityPriority n p g) = Inr () \<and>
         priority_relation n p \<in> set (relations (snd (setEntityPriority n p g))) \<and>
         n \<notin> entity_names (snd (setEntityPriority n p g)) \<and>
         \<not> endpoints_exist (snd (setEntityPriority n p g)) \<and>
         createRelations [priority_relation n p] g = (Inl (SourceEntityMissing n), g)"
proof -
  have s: "\<not> endpoints_exist (snd (setEntityStatus n v g))"
    using assms(1,2)
    by (simp add: setEntityStatus_ok endpoints_exist_def entity_names_def status_relation_def)
  have p: "\<not> endpoints_exist (snd (setEntityPriority n p g))"
    using assms(1,3)
    by (simp add: setEntityPriority_ok endpoints_exist_def entity_names_def priority_relation_def)
  have cs: "createRelations [status_relation n v] g = (Inl (SourceEntityMissing n), g)"
    using assms(1)
    by (simp add: createRelations_def status_relation_def validateRelationType_def
        VALID_RELATION_TYPES_def find_None_names entity_names_def)
  have cp: "createRelations [priority_relation n p] g = (Inl (SourceEntityMissing n), g)"
    using assms(1)
    by (simp add: createRelations_def priority_relation_def validateRelationType_def
        VALID_RELATION_TYPES_def find_None_names entity_names_def)
  show ?thesis
    using assms s p cs cp
    by (simp add: setEntityStatus_ok setEntityPriority_ok entity_names_def)
qed

theorem set_status_priority_dangling_witness:
  "endpoints_exist three_nodes \<and>
   fst (setEntityStatus ''Ghost'' ''active'' three_nodes) = Inr () \<and>
   \<lparr>rfrom = ''Ghost'', rto = ''status:active'', relationType = ''has_status''\<rparr>
     \<in> set (relations (snd (setEntityStatus ''Ghost'' ''active'' three_nodes))) \<and>
   ''Ghost'' \<notin> entity_names (snd (setEntityStatus ''Ghost'' ''active'' three_nodes)) \<and>
   \<not> endpoints_exist (snd (setEntityStatus ''Ghost'' ''active'' three_nodes)) \<and>
   \<not> endpoints_exist (snd (setEntityPriority ''Ghost'' ''high'' three_nodes))"
  using set_status_priority_dangling [of "''Ghost''" three_nodes "''active''" "''high''"]
  by (simp add: three_nodes_def entity_names_def endpoints_exist_def VALID_STATUS_VALUES_def
      VALID_PRIORITY_VALUES_def status_relation_def)

lemma endsession_store_revision:
  assumes "sessionStates (p_sessionId params) = Some sessionState"
    and "processStage stringify params sessionState = Inr stageResult"
    and "p_isRevision params = Some True" and "p_revisesStage params = Some k" and "0 < k"
  shows "endsession_store stringify params sessionStates =
     (Inr stageResult,
      sessionStates(p_sessionId params \<mapsto>
        filter (\<lambda>item. \<not> is_analysis_stage item) sessionState @
          (if k \<le> length (filter is_analysis_stage sessionState)
           then (filter is_analysis_stage sessionState)[k - 1 := analysis_stage stageResult]
           else filter is_analysis_stage sessionState @ [analysis_stage stageResult])))"
  using assms by (simp add: endsession_store_def Let_def)

lemma filter_analysis_list_update:
  "filter is_analysis_stage ((filter is_analysis_stage xs)[i := analysis_stage r])
     = (filter is_analysis_stage xs)[i := analysis_stage r]"
proof -
  have "\<forall>x\<in>set ((filter is_analysis_stage xs)[i := analysis_stage r]). is_analysis_stage x"
    using set_update_subset_insert [of "filter is_analysis_stage xs" i "analysis_stage r"]
    by auto
  then show ?thesis by (simp add: filter_id_conv)
qed

lemma filter_not_analysis_list_update:
  "filter (\<lambda>item. \<not> is_analysis_stage item) ((filter is_analysis_stage xs)[i := analysis_stage r]) = []"
proof -
  have "\<forall>x\<in>set ((filter is_analysis_stage xs)[i := analysis_stage r]). is_analysis_stage x"
    using set_update_subset_insert [of "filter is_analysis_stage xs" i "analysis_stage r"]
    by auto
  then show ?thesis by (simp add: filter_empty_conv)
qed

text \<open>
  Claim C7. When an \<^verbatim>\<open>endsession\<close> call is a revision with the 1-based index \<open>k\<close>
  (\<^verbatim>\<open>revisesStage\<close>) and \<open>k\<close> is at most the number of analysis-stage records of the session,
  the record at position \<open>k\<close> among the analysis-stage records (whatever their stage names)
  is replaced by the new stage record; when \<open>k\<close> exceeds that number, the new record is
  appended and nothing is replaced. The other items of the session are kept.
\<close>

theorem endsession_revision_by_position:
  assumes "sessionStates (p_sessionId params) = Some sessionState"
    and "processStage stringify params sessionState = Inr stageResult"
    and "p_isRevision params = Some True" and "p_revisesStage params = Some k" and "0 < k"
  shows "\<exists>saved.
           endsession_store stringify params sessionStates
             = (Inr stageResult, sessionStates(p_sessionId params \<mapsto> saved)) \<and>
           filter (\<lambda>item. \<not> is_analysis_stage item) saved
             = filter (\<lambda>item. \<not> is_analysis_stage item) sessionState \<and>
           (k \<le> length (filter is_analysis_stage sessionState) \<longrightarrow>
              filter is_analysis_stage saved
                = (filter is_analysis_stage sessionState)[k - 1 := analysis_stage stageResult] \<and>
              filter is_analysis_stage saved ! (k - 1) = analysis_stage stageResult) \<and>
           (length (filter is_analysis_stage sessionState) < k \<longrightarrow>
              filter is_analysis_stage saved
                = filter is_analysis_stage sessionState @ [analysis_stage stageResult])"
proof (cases "k \<le> length (filter is_analysis_stage sessionState)")
  case True
  let ?saved = "filter (\<lambda>item. \<not> is_analysis_stage item) sessionState @
                (filter is_analysis_stage sessionState)[k - 1 := analysis_stage stageResult]"
  have "endsession_store stringify params sessionStates
          = (Inr stageResult, sessionStates(p_sessionId params \<mapsto> ?saved))"
    using endsession_store_revision [where sessionStates = sessionStates, OF assms] True by simp
  moreover have "filter (\<lambda>item. \<not> is_analysis_stage item) ?saved
                   = filter (\<lambda>item. \<not> is_analysis_stage item) sessionState"
    by (simp add: filter_not_analysis_list_update)
  moreover have "filter is_analysis_stage ?saved
                   = (filter is_analysis_stage sessionState)[k - 1 := analysis_stage stageResult]"
    by (simp add: filter_analysis_list_update)
  moreover have "(filter is_analysis_stage sessionState)[k - 1 := analysis_stage stageResult] ! (k - 1)
                   = analysis_stage stageResult"
    using True assms(5) by simp
  ultimately show ?thesis using True by auto
next
  case False
  let ?saved = "filter (\<lambda>item. \<not> is_analysis_stage item) sessionState @
                (filter is_analysis_stage sessionState @ [analysis_stage stageResult])"
  have "endsession_store stringify params sessionStates
          = (Inr stageResult, sessionStates(p_sessionId params \<mapsto> ?saved))"
    using endsession_store_revision [where sessionStates = sessionStates, OF assms] False by simp
  moreover have "filter (\<lambda>item. \<not> is_analysis_stage item) ?saved
                   = filter (\<lambda>item. \<not> is_analysis_stage item) sessionState"
    by simp
  moreover have "filter is_analysis_stage ?saved
                   = filter is_analysis_stage sessionState @ [analysis_stage stageResult]"
    by simp
  ultimately show ?thesis using False by auto
qed

theorem endsession_revision_by_position_witness:
  "filter is_analysis_stage three_stage_log
     = [analysis_stage (summary_record ''old''), analysis_stage achievements_record,
        analysis_stage (summary_record ''older'')] \<and>
   (\<exists>saved. endsession_store opaque_stringify (revision_params 2) [''dev_1'' \<mapsto> three_stage_log]
        = (Inr (summary_record ''new''), [''dev_1'' \<mapsto> saved]) \<and>
      filter is_analysis_stage saved
        = [analysis_stage (summary_record ''old''), analysis_stage (summary_record ''new''),
           analysis_stage (summary_record ''older'')]) \<and>
   (\<exists>saved. endsession_store opaque_stringify (revision_params 4) [''dev_1'' \<mapsto> three_stage_log]
        = (Inr (summary_record ''new''), [''dev_1'' \<mapsto> saved]) \<and>
      filter is_analysis_stage saved
        = [analysis_stage (summary_record ''old''), analysis_stage achievements_record,
           analysis_stage (summary_record ''older''), analysis_stage (summary_record ''new'')])"
proof -
  let ?m = "[''dev_1'' \<mapsto> three_stage_log]"
  have an: "filter is_analysis_stage three_stage_log
     = [analysis_stage (summary_record ''old''), analysis_stage achievements_record,
        analysis_stage (summary_record ''older'')]"
    by (simp add: three_stage_log_def)
  have m2: "?m (p_sessionId (revision_params 2)) = Some three_stage_log"
    by (simp add: revision_params_def summary_params_def)
  have m4: "?m (p_sessionId (revision_params 4)) = Some three_stage_log"
    by (simp add: revision_params_def summary_params_def)
  have id2: "p_sessionId (revision_params 2) = ''dev_1''"
    by (simp add: revision_params_def summary_params_def)
  have id4: "p_sessionId (revision_params 4) = ''dev_1''"
    by (simp add: revision_params_def summary_params_def)
  have ps: "processStage opaque_stringify (revision_params k) three_stage_log
              = Inr (summary_record ''new'')" for k
    by (simp add: processStage_def revision_params_def summary_params_def summary_record_def
        analysis_or_empty_def stageData_or_def)
  have r: "p_isRevision (revision_params k) = Some True"
    and k: "p_revisesStage (revision_params k) = Some k" for k
    by (simp_all add: revision_params_def)
  from endsession_revision_by_position [where sessionStates = ?m, OF m2 ps r k]
  have a: "\<exists>saved. endsession_store opaque_stringify (revision_params 2) ?m
        = (Inr (summary_record ''new''), [''dev_1'' \<mapsto> saved]) \<and>
      filter is_analysis_stage saved
        = [analysis_stage (summary_record ''old''), analysis_stage (summary_record ''new''),
           analysis_stage (summary_record ''older'')]"
    by (simp add: an id2) blast
  from endsession_revision_by_position [where sessionStates = ?m, OF m4 ps r k]
  have b: "\<exists>saved. endsession_store opaque_stringify (revision_params 4) ?m
        = (Inr (summary_record ''new''), [''dev_1'' \<mapsto> saved]) \<and>
      filter is_analysis_stage saved
        = [analysis_stage (summary_record ''old''), analysis_stage achievements_record,
           analysis_stage (summary_record ''older''), analysis_stage (summary_record ''new'')]"
    by (simp add: an id4) blast
  from an a b show ?thesis by blast
qed

lemma find_first:
  "P x \<Longrightarrow> \<forall>y\<in>set pre. \<not> P y \<Longrightarrow> find P (pre @ x # post) = Some x"
  by (induction pre) auto

lemma find_stage_first:
  assumes "stage r = n" and "\<forall>y\<in>set pre. item_stage y \<noteq> Some n"
  shows "find (\<lambda>s. item_stage s = Some n) (pre @ analysis_stage r # post) = Some (analysis_stage r)"
  using assms by (intro find_first) auto

lemma find_stage_none:
  assumes "\<forall>y\<in>set stages. item_stage y \<noteq> Some n"
  shows "find (\<lambda>s. item_stage s = Some n) stages = None"
  using assms by (simp add: find_None_iff)

text \<open>
  Claim C6 (as amended). Whenever the \<^verbatim>\<open>assembly\<close> stage is processed, its stage data is
  recomputed from the stages recorded so far: for each of the names \<^verbatim>\<open>summary\<close>,
  \<^verbatim>\<open>achievements\<close>, \<^verbatim>\<open>taskUpdates\<close>, \<^verbatim>\<open>newTasks\<close> and \<^verbatim>\<open>projectStatus\<close> the fields are
  read from the first (earliest placed) record of that name in the session's list, whatever
  comes after it; with no record of a name its fields default to the empty string or the
  serialised empty array, except \<^verbatim>\<open>duration\<close>, which defaults to \<^verbatim>\<open>"unknown"\<close>.
\<close>

theorem assembly_reads_first_record:
  assumes "stages = pre @ analysis_stage r # post" and "stage r = n"
    and "\<forall>y\<in>set pre. item_stage y \<noteq> Some n"
    and "\<forall>y\<in>set others. item_stage y \<noteq> Some m"
    and "p_stage params = ''assembly''"
  shows
   "processStage stringify params stages =
      Inr \<lparr>stage = ''assembly'', stageNumber = p_stageNumber params,
           analysis = ''Final assembly of endsession arguments'',
           stageData = assembleEndSessionArgs stringify stages, completed = True\<rparr> \<and>
    (n = ''summary'' \<longrightarrow>
       read_prop (assembleEndSessionArgs stringify stages) ''summary''
         = js_or (read_prop (stageData r) ''summary'') (JStr '''') \<and>
       read_prop (assembleEndSessionArgs stringify stages) ''duration''
         = js_or (read_prop (stageData r) ''duration'') (JStr ''unknown'') \<and>
       read_prop (assembleEndSessionArgs stringify stages) ''focus''
         = js_or (read_prop (stageData r) ''focus'') (JStr '''')) \<and>
    (n = ''achievements'' \<longrightarrow>
       read_prop (assembleEndSessionArgs stringify stages) ''achievements''
         = JStr (stringify (js_or (read_prop (stageData r) ''achievements'') (JArr [])))) \<and>
    (n = ''taskUpdates'' \<longrightarrow>
       read_prop (assembleEndSessionArgs stringify stages) ''taskUpdates''
         = JStr (stringify (js_or (read_prop (stageData r) ''taskUpdates'') (JArr [])))) \<and>
    (n = ''newTasks'' \<longrightarrow>
       read_prop (assembleEndSessionArgs stringify stages) ''newTasks''
         = JStr (stringify (js_or (read_prop (stageData r) ''newTasks'') (JArr [])))) \<and>
    (n = ''projectStatus'' \<longrightarrow>
       read_prop (assembleEndSessionArgs stringify stages) ''projectName''
         = js_or (read_prop (stageData r) ''projectName'') (JStr '''') \<and>
       read_prop (assembleEndSessionArgs stringify stages) ''projectStatus''
         = js_or (read_prop (stageData r) ''projectStatus'') (JStr '''') \<and>
       read_prop (assembleEndSessionArgs stringify stages) ''projectObservation''
         = js_or (read_prop (stageData r) ''projectObservation'') (JStr '''')) \<and>
    (m = ''summary'' \<longrightarrow>
       read_prop (assembleEndSessionArgs stringify others) ''summary'' = JStr '''' \<and>
       read_prop (assembleEndSessionArgs stringify others) ''duration'' = JStr ''unknown'' \<and>
       read_prop (assembleEndSessionArgs stringify others) ''focus'' = JStr '''') \<and>
    (m = ''achievements'' \<longrightarrow>
       read_prop (assembleEndSessionArgs stringify others) ''achievements''
         = JStr (stringify (JArr []))) \<and>
    (m = ''taskUpdates'' \<longrightarrow>
       read_prop (assembleEndSessionArgs stringify others) ''taskUpdates''
         = JStr (stringify (JArr []))) \<and>
    (m = ''newTasks'' \<longrightarrow>
       read_prop (assembleEndSessionArgs stringify others) ''newTasks''
         = JStr (stringify (JArr []))) \<and>
    (m = ''projectStatus'' \<longrightarrow>
       read_prop (assembleEndSessionArgs stringify others) ''projectName'' = JStr '''' \<and>
       read_prop (assembleEndSessionArgs stringify others) ''projectStatus'' = JStr '''' \<and>
       read_prop (assembleEndSessionArgs stringify others) ''projectObservation'' = JStr '''')"
proof -
  have f: "find (\<lambda>s. item_stage s = Some n) stages = Some (analysis_stage r)"
    unfolding assms(1) using assms(2,3) by (rule find_stage_first)
  have g: "find (\<lambda>s. item_stage s = Some m) others = None"
    using assms(4) by (rule find_stage_none)
  have p: "processStage stringify params stages =
      Inr \<lparr>stage = ''assembly'', stageNumber = p_stageNumber params,
           analysis = ''Final assembly of endsession arguments'',
           stageData = assembleEndSessionArgs stringify stages, completed = True\<rparr>"
    using assms(5) by (simp add: processStage_def)
  show ?thesis
  proof (intro conjI impI)
    show "processStage stringify params stages =
      Inr \<lparr>stage = ''assembly'', stageNumber = p_stageNumber params,
           analysis = ''Final assembly of endsession arguments'',
           stageData = assembleEndSessionArgs stringify stages, completed = True\<rparr>"
      by (rule p)
  qed (use f g in \<open>simp_all add: assembleEndSessionArgs_def Let_def js_or_def\<close>)
qed

text \<open>
  Claim C6 as stated fails: with two \<^verbatim>\<open>summary\<close> records in the list the assembly takes the
  earlier one, not the latest, and \<^verbatim>\<open>duration\<close> does not default to an empty value.
\<close>

theorem assembly_latest_record_counterexample:
  "processStage opaque_stringify assembly_params
      [analysis_stage (summary_record ''old''), analysis_stage (summary_record ''new'')]
     = Inr \<lparr>stage = ''assembly'', stageNumber = 6,
            analysis = ''Final assembly of endsession arguments'',
            stageData = assembleEndSessionArgs opaque_stringify
              [analysis_stage (summary_record ''old''), analysis_stage (summary_record ''new'')],
            completed = True\<rparr> \<and>
   read_prop (assembleEndSessionArgs opaque_stringify
      [analysis_stage (summary_record ''old''), analysis_stage (summary_record ''new'')]) ''summary''
     = JStr ''old'' \<and>
   read_prop (assembleEndSessionArgs opaque_stringify []) ''duration'' = JStr ''unknown''"
  by (simp add: processStage_def assembly_params_def assembleEndSessionArgs_def
      summary_record_def js_or_def)

theorem assembly_reads_first_record_witness:
  "read_prop (assembleEndSessionArgs opaque_stringify three_stage_log) ''summary'' = JStr ''old'' \<and>
   read_prop (assembleEndSessionArgs opaque_stringify three_stage_log) ''duration'' = JStr ''unknown'' \<and>
   read_prop (assembleEndSessionArgs opaque_stringify three_stage_log) ''achievements''
     = JStr (opaque_stringify (JArr [JStr ''login fixed''])) \<and>
   read_prop (assembleEndSessionArgs opaque_stringify three_stage_log) ''newTasks''
     = JStr (opaque_stringify (JArr []))"
proof -
  have l1: "three_stage_log = [] @ analysis_stage (summary_record ''old'') #
      [context_loaded ''2025-01-01T00:00:00.000Z'' ''AuthSystem'' ''project'',
       analysis_stage achievements_record, analysis_stage (summary_record ''older'')]"
    by (simp add: three_stage_log_def)
  have l2: "three_stage_log =
      [analysis_stage (summary_record ''old''),
       context_loaded ''2025-01-01T00:00:00.000Z'' ''AuthSystem'' ''project''] @
      analysis_stage achievements_record # [analysis_stage (summary_record ''older'')]"
    by (simp add: three_stage_log_def)
  have n1: "\<forall>y\<in>set three_stage_log. item_stage y \<noteq> Some ''newTasks''"
    by (simp add: three_stage_log_def summary_record_def achievements_record_def)
  have s1: "stage (summary_record ''old'') = ''summary''" by (simp add: summary_record_def)
  have s2: "stage achievements_record = ''achievements''" by (simp add: achievements_record_def)
  have e1: "\<forall>y\<in>set ([]::SessionItem list). item_stage y \<noteq> Some ''summary''" by simp
  have e2: "\<forall>y\<in>set [analysis_stage (summary_record ''old''),
       context_loaded ''2025-01-01T00:00:00.000Z'' ''AuthSystem'' ''project''].
         item_stage y \<noteq> Some ''achievements''"
    by (simp add: summary_record_def)
  have pa: "p_stage assembly_params = ''assembly''" by (simp add: assembly_params_def)
  from assembly_reads_first_record [OF l1 s1 e1 n1 pa, of opaque_stringify]
  have a: "read_prop (assembleEndSessionArgs opaque_stringify three_stage_log) ''summary'' = JStr ''old''"
    and b: "read_prop (assembleEndSessionArgs opaque_stringify three_stage_log) ''duration'' = JStr ''unknown''"
    and d: "read_prop (assembleEndSessionArgs opaque_stringify three_stage_log) ''newTasks''
             = JStr (opaque_stringify (JArr []))"
    by (simp_all add: summary_record_def js_or_def)
  from assembly_reads_first_record [OF l2 s2 e2 n1 pa, of opaque_stringify]
  have c: "read_prop (assembleEndSessionArgs opaque_stringify three_stage_log) ''achievements''
     = JStr (opaque_stringify (JArr [JStr ''login fixed'']))"
    by (simp add: achievements_record_def js_or_def)
  from a b c d show ?thesis by blast
qed

lemma load_statuses_foldl:
  assumes "n \<noteq> ''__proto__''"
  shows "foldl (\<lambda>statuses entity.
              case getEntityStatus (name entity) graph of
                Some status \<Rightarrow> if status \<noteq> [] then obj_set statuses (name entity) status
                               else statuses
              | None \<Rightarrow> statuses) m es n
     = (if n \<in> name ` set es \<and> resolved_status graph n \<noteq> None
        then resolved_status graph n else m n)"
  using assms
proof (induction es arbitrary: m)
  case Nil
  then show ?case by simp
next
  case (Cons e es)
  show ?case
    using Cons.prems
    by (auto simp: Cons.IH resolved_status_def obj_set_def split: option.splits)
qed

lemma load_statuses_own:
  assumes "n \<noteq> ''__proto__''"
  shows "load_statuses graph es n
           = (if n \<in> name ` set es then resolved_status graph n else None)"
  using load_statuses_foldl [OF assms, of graph Map.empty es]
  by (auto simp: load_statuses_def)

lemma active_filter_loaded:
  assumes "name e \<notin> set Object_prototype_keys" and "name e \<in> name ` set es"
  shows "active_filter (load_statuses graph es) e = active_or_unknown graph e"
proof -
  have np: "name e \<noteq> ''__proto__''"
    using assms(1) by (auto simp: Object_prototype_keys_def)
  have "load_statuses graph es (name e) = resolved_status graph (name e)"
    using load_statuses_own [OF np] assms(2) by simp
  moreover have "resolved_status graph (name e) \<noteq> Some []"
    by (auto simp: resolved_status_def split: option.splits)
  ultimately show ?thesis
    using assms(1) np
    by (cases "resolved_status graph (name e)")
       (auto simp: active_filter_def obj_get_def active_or_unknown_def)
qed

lemma filter_active_loaded:
  assumes "\<forall>e\<in>set xs. name e \<notin> set Object_prototype_keys" and "set xs \<subseteq> set es"
  shows "filter (active_filter (load_statuses graph es)) xs = filter (active_or_unknown graph) xs"
proof (rule filter_cong [OF refl])
  fix e assume "e \<in> set xs"
  then show "active_filter (load_statuses graph es) e = active_or_unknown graph e"
    using assms by (intro active_filter_loaded) auto
qed

text \<open>
  Apart from entities whose name is a property of \<^verbatim>\<open>Object.prototype\<close>, the four active
  collections of \<^verbatim>\<open>getProjectStatus\<close> and the two of \<^verbatim>\<open>getComponentContext\<close> hold exactly
  the collected entities whose resolved status is \<^verbatim>\<open>active\<close> or absent.
\<close>

lemma getProjectStatus_active_collections:
  assumes "getProjectStatus projectName graph = Inr r"
    and "\<forall>e\<in>set (ps_allTasks r @ ps_allIssues r @ ps_allFeatures r @ ps_allMilestones r).
           name e \<notin> set Object_prototype_keys"
  shows "ps_activeTasks r = filter (active_or_unknown graph) (ps_allTasks r)"
    and "ps_activeIssues r = filter (active_or_unknown graph) (ps_allIssues r)"
    and "ps_activeFeatures r = filter (active_or_unknown graph) (ps_allFeatures r)"
    and "ps_upcomingMilestones r = filter (active_or_unknown graph) (ps_allMilestones r)"
  using assms
  by (auto simp: getProjectStatus_def Let_def split: option.splits
           intro!: filter_active_loaded)

lemma getComponentContext_active_collections:
  assumes "getComponentContext componentName graph = Inr r"
    and "\<forall>e\<in>set (cc_allTasks r @ cc_allIssues r). name e \<notin> set Object_prototype_keys"
  shows "cc_activeTasks r = filter (active_or_unknown graph) (cc_allTasks r)"
    and "cc_activeIssues r = filter (active_or_unknown graph) (cc_allIssues r)"
  using assms
  by (auto simp: getComponentContext_def Let_def split: option.splits
           intro!: filter_active_loaded)

text \<open>
  Claim C4 says that the active collections of \<^verbatim>\<open>getProjectStatus\<close> and
  \<^verbatim>\<open>getComponentContext\<close> hold exactly the collected entities whose resolved status is
  \<^verbatim>\<open>active\<close> or absent, so that an entity with no \<^verbatim>\<open>has_status\<close> relation is included. The
  code departs from it for a name that \<^verbatim>\<open>Object.prototype\<close> defines: the tasks
  \<^verbatim>\<open>constructor\<close> and \<^verbatim>\<open>toString\<close> below have no \<^verbatim>\<open>has_status\<close> relation, are collected, and
  are left out of \<^verbatim>\<open>activeTasks\<close>, while the task \<^verbatim>\<open>checkout\<close>, also without a status, is in.
\<close>

theorem active_tasks_drop_inherited_names:
  "getEntityStatus ''constructor'' project_with_tasks = None \<and>
   getEntityStatus ''checkout'' project_with_tasks = None \<and>
   map_sum id (map name \<circ> ps_allTasks) (getProjectStatus ''Shop'' project_with_tasks)
     = Inr [''constructor'', ''checkout'', ''search'', ''login''] \<and>
   map_sum id (map name \<circ> ps_activeTasks) (getProjectStatus ''Shop'' project_with_tasks)
     = Inr [''checkout'', ''search''] \<and>
   getEntityStatus ''toString'' component_with_task = None \<and>
   map_sum id (map name \<circ> cc_allTasks) (getComponentContext ''Cart'' component_with_task)
     = Inr [''toString'', ''totals''] \<and>
   map_sum id (map name \<circ> cc_activeTasks) (getComponentContext ''Cart'' component_with_task)
     = Inr [''totals'']"
  by code_simp

lemma getProjectStatus_recentDecisions:
  assumes "getProjectStatus projectName graph = Inr r"
  shows "ps_recentDecisions r =
     take 5 (filter (\<lambda>e. entityType e = ''decision'' \<and>
                          (\<exists>rel\<in>set (relations graph).
                             (rfrom rel = name e \<and> rto rel = projectName) \<or>
                             (rto rel = name e \<and> rfrom rel = projectName)))
               (entities graph))"
  using assms
  by (auto simp: getProjectStatus_def Let_def list_ex_iff split: option.splits)

text \<open>
  Claim C9 says that \<^verbatim>\<open>recentDecisions\<close> holds the decision entities connected to the project
  by any relation in either direction, capped at the five most recently discovered. The code
  keeps the first five in the order of the entity list (\<^verbatim>\<open>slice(0, 5)\<close>): of six connected
  decisions the one discovered last, \<^verbatim>\<open>D6\<close>, is the one dropped.
\<close>

theorem recentDecisions_keeps_first_five:
  "map_sum id (map name \<circ> ps_recentDecisions)
      (getProjectStatus ''Shop'' project_with_six_decisions)
     = Inr [''D1'', ''D2'', ''D3'', ''D4'', ''D5'']"
  by code_simp

lemma double_one_tenth: "js_div 1 10 = (7205759403792794, 2 ^ 56)"
  by code_simp

lemma double_one_third: "js_div 1 3 = (6004799503160661, 2 ^ 54)"
  by code_simp

lemma double_one_third_times_100: "js_mul (js_div 1 3) 100 = (4691249611844266, 2 ^ 47)"
  by code_simp

lemma double_23_of_40_times_100: "js_mul (js_div 23 40) 100 = (8092405580431359, 2 ^ 47)"
  by code_simp

lemma below_half_23_of_40: "(8092405580431359::int) * 2 < 115 * 2 ^ 47"
  by simp

lemma getMilestoneProgress_percentage:
  assumes "getMilestoneProgress milestoneName graph = Inr r"
  shows "mp_percentage r = progressPercentage (mp_completedTasks r) (mp_totalTasks r)"
    and "mp_totalTasks r = 0 \<Longrightarrow> mp_percentage r = 0"
    and "mp_completedTasks r = length (mp_completed r)"
    and "mp_totalTasks r = length (mp_completed r) + length (mp_inProgress r) + length (mp_notStarted r)"
proof -
  have split3: "length xs = length (filter P xs) + length (filter (\<lambda>x. \<not> P x \<and> Q x) xs)
                  + length (filter (\<lambda>x. \<not> P x \<and> \<not> Q x) xs)"
    for P Q :: "Entity \<Rightarrow> bool" and xs
    by (induction xs) auto
  show "mp_percentage r = progressPercentage (mp_completedTasks r) (mp_totalTasks r)"
    and "mp_totalTasks r = 0 \<Longrightarrow> mp_percentage r = 0"
    and "mp_completedTasks r = length (mp_completed r)"
    using assms
    by (auto simp: getMilestoneProgress_def Let_def progressPercentage_def split: option.splits)
  show "mp_totalTasks r = length (mp_completed r) + length (mp_inProgress r) + length (mp_notStarted r)"
    using assms split3
    by (auto simp: getMilestoneProgress_def Let_def split: option.splits)
qed

lemma status_or_inactive_loaded:
  assumes "name e \<noteq> ''__proto__''" and "name e \<in> name ` set es"
  shows "(status_or_inactive (load_statuses graph es) e = Str s)
           = (resolved_status graph (name e) = Some s \<or>
              (resolved_status graph (name e) = None \<and> name e \<notin> set Object_prototype_keys \<and>
               s = ''inactive''))"
proof -
  have own: "load_statuses graph es (name e) = resolved_status graph (name e)"
    using load_statuses_own [OF assms(1)] assms(2) by simp
  have ne: "resolved_status graph (name e) \<noteq> Some []"
    by (auto simp: resolved_status_def split: option.splits)
  show ?thesis
    using own ne assms(1)
    by (cases "resolved_status graph (name e)")
       (auto simp: status_or_inactive_def obj_get_def)
qed

text \<open>
  Apart from a task named \<^verbatim>\<open>__proto__\<close>, the three groups of \<^verbatim>\<open>getMilestoneProgress\<close> are
  the tasks whose resolved status is \<^verbatim>\<open>complete\<close>, is \<^verbatim>\<open>active\<close>, and is anything else or
  absent; and the milestone is complete exactly when it has a task and every task's resolved
  status is \<^verbatim>\<open>complete\<close>.
\<close>

lemma getMilestoneProgress_groups:
  assumes "getMilestoneProgress milestoneName graph = Inr r"
    and "\<forall>e\<in>set (mp_completed r @ mp_inProgress r @ mp_notStarted r). name e \<noteq> ''__proto__''"
  shows "\<forall>e\<in>set (mp_completed r). resolved_status graph (name e) = Some ''complete''"
    and "\<forall>e\<in>set (mp_inProgress r). resolved_status graph (name e) = Some ''active''"
    and "\<forall>e\<in>set (mp_notStarted r). resolved_status graph (name e) \<noteq> Some ''complete'' \<and>
                                    resolved_status graph (name e) \<noteq> Some ''active''"
    and "mp_complete r =
           (0 < mp_totalTasks r \<and>
            (\<forall>e\<in>set (mp_completed r @ mp_inProgress r @ mp_notStarted r).
               resolved_status graph (name e) = Some ''complete''))"
proof -
  define ts where "ts = lookup_each
                (\<lambda>r. relationType r = ''related_to'' \<and> rto r = milestoneName)
                (\<lambda>r e. name e = rfrom r \<and> entityType e = ''task'') graph"
  define st where "st = load_statuses graph ts"
  obtain m where r: "r = \<lparr>mp_milestone = m,
                  mp_totalTasks = length ts,
                  mp_completedTasks = length (filter (\<lambda>task. status_or_inactive st task = Str ''complete'') ts),
                  mp_inProgressTasks = length (filter (\<lambda>task. status_or_inactive st task \<noteq> Str ''complete'' \<and>
                               status_or_inactive st task = Str ''active'') ts),
                  mp_notStartedTasks = length (filter (\<lambda>task. status_or_inactive st task \<noteq> Str ''complete'' \<and>
                               status_or_inactive st task \<noteq> Str ''active'') ts),
                  mp_percentage = progressPercentage (length (filter (\<lambda>task. status_or_inactive st task = Str ''complete'') ts)) (length ts),
                  mp_complete = (0 < length ts \<and>
                     list_all (\<lambda>task. obj_get st (name task) = Str ''complete'') ts),
                  mp_completed = filter (\<lambda>task. status_or_inactive st task = Str ''complete'') ts,
                  mp_inProgress = filter (\<lambda>task. status_or_inactive st task \<noteq> Str ''complete'' \<and>
                               status_or_inactive st task = Str ''active'') ts,
                  mp_notStarted = filter (\<lambda>task. status_or_inactive st task \<noteq> Str ''complete'' \<and>
                               status_or_inactive st task \<noteq> Str ''active'') ts,
                  mp_statuses = st\<rparr>"
    using assms(1)
    by (auto simp: getMilestoneProgress_def Let_def ts_def st_def split: option.splits)
  have all: "set (mp_completed r @ mp_inProgress r @ mp_notStarted r) = set ts"
    by (auto simp: r)
  have np: "\<forall>e\<in>set ts. name e \<noteq> ''__proto__''"
    using assms(2) unfolding all .
  have so: "(status_or_inactive st e = Str s)
           = (resolved_status graph (name e) = Some s \<or>
              (resolved_status graph (name e) = None \<and> name e \<notin> set Object_prototype_keys \<and>
               s = ''inactive''))" if "e \<in> set ts" for e s
    unfolding st_def using that np by (intro status_or_inactive_loaded) auto
  have og: "(obj_get st (name e) = Str ''complete'')
              = (resolved_status graph (name e) = Some ''complete'')" if "e \<in> set ts" for e
  proof -
    have "st (name e) = resolved_status graph (name e)"
      unfolding st_def using load_statuses_own [of "name e" graph ts] that np by auto
    then show ?thesis
      using that np by (auto simp: obj_get_def split: option.splits)
  qed
  show "\<forall>e\<in>set (mp_completed r). resolved_status graph (name e) = Some ''complete''"
    using so by (auto simp: r)
  show "\<forall>e\<in>set (mp_inProgress r). resolved_status graph (name e) = Some ''active''"
    using so by (auto simp: r)
  show "\<forall>e\<in>set (mp_notStarted r). resolved_status graph (name e) \<noteq> Some ''complete'' \<and>
                                    resolved_status graph (name e) \<noteq> Some ''active''"
    using so by (auto simp: r)
  show "mp_complete r =
           (0 < mp_totalTasks r \<and>
            (\<forall>e\<in>set (mp_completed r @ mp_inProgress r @ mp_notStarted r).
               resolved_status graph (name e) = Some ''complete''))"
    unfolding all using og by (auto simp: r list_all_iff)
qed

lemma three_tasks_example:
  "map_sum id (\<lambda>r. (mp_totalTasks r, mp_completedTasks r, mp_inProgressTasks r,
                    mp_notStartedTasks r, mp_percentage r, mp_complete r))
     (getMilestoneProgress ''M1'' milestone_three_tasks) = Inr (3, 1, 1, 1, 33, False)"
  by code_simp

text \<open>
  Claim C5 says that \<^verbatim>\<open>getMilestoneProgress\<close> reports
  \<open>percentage = round (100 \<times> completedCount / totalCount)\<close>. The code rounds the double
  \<^verbatim>\<open>(completed / total) * 100\<close> instead: for a milestone with 40 tasks of which 23 are
  complete the quotient 23/40 is not a double, its product with 100 falls just below 57.5,
  and the reported percentage is 57, although 100 \<times> 23 / 40 is exactly 57.5 and rounds to 58.
\<close>

theorem percentage_23_of_40_is_57:
  "map_sum id (\<lambda>r. (mp_totalTasks r, mp_completedTasks r, mp_percentage r))
     (getMilestoneProgress ''M1'' (milestone_graph 23 40)) = Inr (40, 23, 57) \<and>
   progressPercentage 23 40 = 57 \<and>
   (200 * 23 + 40) div (2 * 40) = (58::int) \<and> round_half_even (100 * 23) 40 = 58"
  by code_simp

lemma iso_date_epoch: "iso_date ''1970-01-01'' = Some 0"
  by code_simp

lemma iso_date_1960: "iso_date ''1960-01-01'' = Some (- 315619200000)"
  by code_simp

lemma iso_date_2024: "iso_date ''2024-03-01'' = Some 1709251200000"
  by code_simp

lemma iso_date_no_such_day: "iso_date ''2023-02-29'' = None"
  by code_simp

lemma insert_sorted_insort_key:
  assumes "\<forall>y\<in>set ys. (cmp x y \<le> 0) = (f x \<le> f y)"
  shows "insert_sorted cmp x ys = insort_key f x ys"
  using assms by (induction ys) auto

lemma js_sort_sort_key:
  assumes "\<forall>x\<in>set xs. \<forall>y\<in>set xs. (cmp x y \<le> 0) = (f x \<le> (f y :: int))"
  shows "js_sort cmp xs = sort_key f xs"
  using assms
proof (induction xs)
  case Nil
  then show ?case by (simp add: js_sort_def)
next
  case (Cons x xs)
  have ih: "js_sort cmp xs = sort_key f xs"
    using Cons by auto
  have "js_sort cmp (x # xs) = insert_sorted cmp x (sort_key f xs)"
    using ih by (simp add: js_sort_def)
  also have "\<dots> = insort_key f x (sort_key f xs)"
    using Cons.prems by (intro insert_sorted_insort_key) auto
  finally show ?case by simp
qed

lemma insort_key_map:
  "insort_key f (g x) (map g ys) = map g (insort_key (\<lambda>a. f (g a)) x ys)"
  by (induction ys) auto

lemma sort_key_map: "sort_key f (map g xs) = map g (sort_key (\<lambda>a. f (g a)) xs)"
  by (induction xs) (auto simp: insort_key_map)

lemma getDecisionHistory_sort_key:
  assumes "getDecisionHistory other projectName graph = Inr r"
    and "\<forall>d\<in>set (collect_decisions projectName graph). decision_date other d \<noteq> None"
  shows "dh_decisions r
           = sort_key (\<lambda>d. - date_ms other d) (collect_decisions projectName graph)"
proof -
  let ?ds = "collect_decisions projectName graph"
  let ?g = "\<lambda>decision. (decision, decision_date other decision)"
  let ?f = "\<lambda>p :: Entity \<times> time_value. - (case snd p of Some t \<Rightarrow> t | None \<Rightarrow> 0)"
  have r: "dh_decisions r = map fst (js_sort by_date_descending (map ?g ?ds))"
    using assms(1) by (auto simp: getDecisionHistory_def Let_def split: option.splits)
  have "\<forall>x\<in>set (map ?g ?ds). \<forall>y\<in>set (map ?g ?ds). (by_date_descending x y \<le> 0) = (?f x \<le> ?f y)"
  proof (intro ballI)
    fix x y assume "x \<in> set (map ?g ?ds)" and "y \<in> set (map ?g ?ds)"
    then have "snd x \<noteq> None" and "snd y \<noteq> None"
      using assms(2) by auto
    then obtain tx ty where "snd x = Some tx" and "snd y = Some ty"
      by blast
    then show "(by_date_descending x y \<le> 0) = (?f x \<le> ?f y)"
      by (simp add: by_date_descending_def)
  qed
  then have "js_sort by_date_descending (map ?g ?ds) = sort_key ?f (map ?g ?ds)"
    by (rule js_sort_sort_key)
  also have "\<dots> = map ?g (sort_key (\<lambda>d. ?f (?g d)) ?ds)"
    by (rule sort_key_map)
  finally have "dh_decisions r = sort_key (\<lambda>d. ?f (?g d)) ?ds"
    using r by (simp add: comp_def)
  moreover have "(\<lambda>d. ?f (?g d)) = (\<lambda>d. - date_ms other d)"
    by (auto simp: date_ms_def)
  ultimately show ?thesis by simp
qed

lemma undated_is_epoch:
  assumes "\<not> list_ex (\<lambda>ob. startsWith ob ''Date:'') (observations d)"
  shows "decision_date other d = Some 0"
proof -
  have "find (\<lambda>ob. startsWith ob ''Date:'') (observations d) = None"
    using assms by (simp add: find_None_iff list_ex_iff)
  then show ?thesis by (simp add: decision_date_def)
qed

text \<open>
  Claim C8 (as amended). When the date text of every collected decision parses to a valid
  date, \<^verbatim>\<open>getDecisionHistory\<close> returns the collected decisions in the order of a stable
  sort by descending time value: dates never increase along the result, and decisions of
  equal date keep their order of collection. A decision with no observation that starts
  with \<^verbatim>\<open>Date:\<close> is given the epoch, time value 0, so it comes after every decision dated
  later than 1970-01-01 and before every decision dated earlier.
\<close>

theorem decision_history_descending:
  assumes "getDecisionHistory other projectName graph = Inr r"
    and "\<forall>d\<in>set (collect_decisions projectName graph). decision_date other d \<noteq> None"
  shows "dh_decisions r
           = sort_key (\<lambda>d. - date_ms other d) (collect_decisions projectName graph) \<and>
         sorted_wrt (\<lambda>a b. date_ms other b \<le> date_ms other a) (dh_decisions r) \<and>
         set (dh_decisions r) = set (collect_decisions projectName graph) \<and>
         length (dh_decisions r) = length (collect_decisions projectName graph) \<and>
         (\<forall>t. filter (\<lambda>d. date_ms other d = t) (dh_decisions r)
                = filter (\<lambda>d. date_ms other d = t) (collect_decisions projectName graph)) \<and>
         (\<forall>d\<in>set (dh_decisions r).
            \<not> list_ex (\<lambda>ob. startsWith ob ''Date:'') (observations d) \<longrightarrow>
              decision_date other d = Some 0 \<and> date_ms other d = 0)"
proof -
  let ?ds = "collect_decisions projectName graph"
  let ?k = "\<lambda>d. - date_ms other d"
  have eq: "dh_decisions r = sort_key ?k ?ds"
    using assms by (rule getDecisionHistory_sort_key)
  have "sorted (map ?k (sort_key ?k ?ds))"
    by (rule sorted_sort_key)
  then have srt: "sorted_wrt (\<lambda>a b. date_ms other b \<le> date_ms other a) (dh_decisions r)"
    unfolding eq by (simp add: sorted_wrt_map)
  have stable: "filter (\<lambda>d. date_ms other d = t) (dh_decisions r)
                = filter (\<lambda>d. date_ms other d = t) ?ds" for t
  proof -
    have "filter (\<lambda>d. ?k d = - t) (sort_key ?k ?ds) = filter (\<lambda>d. ?k d = - t) ?ds"
      by (rule sort_key_stable)
    then show ?thesis unfolding eq by simp
  qed
  have und: "\<forall>d\<in>set (dh_decisions r).
            \<not> list_ex (\<lambda>ob. startsWith ob ''Date:'') (observations d) \<longrightarrow>
              decision_date other d = Some 0 \<and> date_ms other d = 0"
    by (auto simp: undated_is_epoch date_ms_def)
  show ?thesis
    using eq srt stable und by simp
qed

text \<open>
  Claim C8 as stated fails: the decision \<^verbatim>\<open>use-postgres\<close> has no \<^verbatim>\<open>Date:\<close> observation and
  the decision \<^verbatim>\<open>use-cobol\<close> has one, yet \<^verbatim>\<open>use-postgres\<close> is returned before it: the date
  given to an undated decision is the epoch, not the oldest date, and 1960 is older.
\<close>

theorem undated_decision_not_last_counterexample:
  "map_sum id (map name \<circ> dh_decisions)
      (getDecisionHistory no_other_format ''Shop'' dated_decisions)
     = Inr [''use-redis'', ''use-postgres'', ''use-cobol''] \<and>
   map (\<lambda>d. (name d, list_ex (\<lambda>ob. startsWith ob ''Date:'') (observations d),
              decision_date no_other_format d))
      (collect_decisions ''Shop'' dated_decisions)
     = [(''use-cobol'', True, Some (- 315619200000)),
        (''use-postgres'', False, Some 0),
        (''use-redis'', True, Some 1709251200000)]"
  by code_simp

theorem decision_history_descending_witness:
  "getDecisionHistory no_other_format ''Shop'' dated_decisions
     = Inr \<lparr>dh_project = \<lparr>name = ''Shop'', entityType = ''project'', observations = []\<rparr>,
            dh_decisions =
              [\<lparr>name = ''use-redis'', entityType = ''decision'',
                 observations = [''cache layer'', ''Date: 2024-03-01'']\<rparr>,
               \<lparr>name = ''use-postgres'', entityType = ''decision'',
                 observations = [''chosen over MySQL'']\<rparr>,
               \<lparr>name = ''use-cobol'', entityType = ''decision'',
                 observations = [''Date: 1960-01-01'']\<rparr>]\<rparr> \<and>
   sorted_wrt (\<lambda>a b. date_ms no_other_format b \<le> date_ms no_other_format a)
     [\<lparr>name = ''use-redis'', entityType = ''decision'',
        observations = [''cache layer'', ''Date: 2024-03-01'']\<rparr>,
      \<lparr>name = ''use-postgres'', entityType = ''decision'',
        observations = [''chosen over MySQL'']\<rparr>,
      \<lparr>name = ''use-cobol'', entityType = ''decision'',
        observations = [''Date: 1960-01-01'']\<rparr>]"
proof -
  let ?r = "\<lparr>dh_project = \<lparr>name = ''Shop'', entityType = ''project'', observations = []\<rparr>,
            dh_decisions =
              [\<lparr>name = ''use-redis'', entityType = ''decision'',
                 observations = [''cache layer'', ''Date: 2024-03-01'']\<rparr>,
               \<lparr>name = ''use-postgres'', entityType = ''decision'',
                 observations = [''chosen over MySQL'']\<rparr>,
               \<lparr>name = ''use-cobol'', entityType = ''decision'',
                 observations = [''Date: 1960-01-01'']\<rparr>]\<rparr>"
  have a: "getDecisionHistory no_other_format ''Shop'' dated_decisions = Inr ?r"
    by code_simp
  have b: "\<forall>d\<in>set (collect_decisions ''Shop'' dated_decisions).
             decision_date no_other_format d \<noteq> None"
    by code_simp
  from decision_history_descending [OF a b]
  have "sorted_wrt (\<lambda>a b. date_ms no_other_format b \<le> date_ms no_other_format a)
          (dh_decisions ?r)"
    by blast
  then show ?thesis using a by simp
qed

end
